theory Spec2Isabelle
  imports Complex_Main
begin

section \<open>JavaScript numbers\<close>

text \<open>
  A JavaScript \<^verbatim>\<open>number\<close> is an IEEE-754 binary64 value. Every finite double is a
  rational, so a number is modelled as NaN, an infinity or a rational. The sign of zero is
  not modelled: no operation used by the clients below distinguishes the two zeros
  (comparisons, division by a non-zero constant, \<^verbatim>\<open>Math.floor\<close>, \<^verbatim>\<open>Math.min\<close>).
\<close>

datatype number = NaN | NegInf | Fin rat | PosInf

text \<open>The relational operators; every comparison with NaN is false.\<close>

fun num_lt :: "number \<Rightarrow> number \<Rightarrow> bool" where
  "num_lt (Fin a) (Fin b) = (a < b)"
| "num_lt NegInf (Fin b) = True"
| "num_lt NegInf PosInf = True"
| "num_lt (Fin a) PosInf = True"
| "num_lt _ _ = False"

fun num_le :: "number \<Rightarrow> number \<Rightarrow> bool" where
  "num_le NaN _ = False"
| "num_le _ NaN = False"
| "num_le a b = (\<not> num_lt b a)"

definition num_gt :: "number \<Rightarrow> number \<Rightarrow> bool" where
  "num_gt a b = num_lt b a"

definition num_ge :: "number \<Rightarrow> number \<Rightarrow> bool" where
  "num_ge a b = num_le b a"

section \<open>Arithmetic on numbers\<close>

text \<open>
  Arithmetic rounds the exact result to the nearest binary64 value, ties to even
  (IEEE-754 roundTiesToEven, the only rounding mode of ECMAScript).
\<close>

text \<open>The number of binary digits of a natural number.\<close>

fun bit_length :: "nat \<Rightarrow> nat" where
  "bit_length n = (if n = 0 then 0 else Suc (bit_length (n div 2)))"

declare bit_length.simps [simp del]

text \<open>For positive \<open>x\<close>, the exponent \<open>e\<close> with \<open>2^e \<le> x < 2^(e+1)\<close>.\<close>

definition floor_log2 :: "rat \<Rightarrow> int" where
  "floor_log2 x =
    (if x \<ge> 1 then int (bit_length (nat \<lfloor>x\<rfloor>)) - 1
     else - int (bit_length (nat (\<lceil>1 / x\<rceil> - 1))))"

definition two_pow :: "int \<Rightarrow> rat" where
  "two_pow e = (if e \<ge> 0 then 2 ^ nat e else 1 / 2 ^ nat (- e))"

definition round_half_even :: "rat \<Rightarrow> int" where
  "round_half_even m =
    (let f = \<lfloor>m\<rfloor>; d = m - of_int f in
     if d < 1 / 2 then f else if d > 1 / 2 then f + 1
     else if even f then f else f + 1)"

text \<open>
  Rounding to binary64: 53 significant bits, the exponent of the unit in the last place
  bounded below by that of the subnormals (\<open>2^-1074\<close>), and overflow to an infinity
  when the rounded magnitude reaches \<open>2^1024\<close>.
\<close>

definition fl64 :: "rat \<Rightarrow> number" where
  "fl64 x =
    (if x = 0 then Fin 0 else
     let e = max (floor_log2 \<bar>x\<bar>) (- 1022);
         ulp = two_pow (e - 52);
         v = of_int (round_half_even (x / ulp)) * ulp
     in if \<bar>v\<bar> \<ge> two_pow 1024 then (if x > 0 then PosInf else NegInf) else Fin v)"

text \<open>A decimal literal of the source denotes the double nearest to it.\<close>

definition dec :: "rat \<Rightarrow> number" where
  "dec q = fl64 q"

fun num_add :: "number \<Rightarrow> number \<Rightarrow> number" where
  "num_add (Fin a) (Fin b) = fl64 (a + b)"
| "num_add NaN _ = NaN"
| "num_add _ NaN = NaN"
| "num_add PosInf NegInf = NaN"
| "num_add NegInf PosInf = NaN"
| "num_add PosInf _ = PosInf"
| "num_add _ PosInf = PosInf"
| "num_add NegInf _ = NegInf"
| "num_add _ NegInf = NegInf"

fun num_mul :: "number \<Rightarrow> number \<Rightarrow> number" where
  "num_mul (Fin a) (Fin b) = fl64 (a * b)"
| "num_mul NaN _ = NaN"
| "num_mul _ NaN = NaN"
| "num_mul (Fin a) PosInf = (if a = 0 then NaN else if a > 0 then PosInf else NegInf)"
| "num_mul (Fin a) NegInf = (if a = 0 then NaN else if a > 0 then NegInf else PosInf)"
| "num_mul PosInf (Fin b) = (if b = 0 then NaN else if b > 0 then PosInf else NegInf)"
| "num_mul NegInf (Fin b) = (if b = 0 then NaN else if b > 0 then NegInf else PosInf)"
| "num_mul PosInf PosInf = PosInf"
| "num_mul NegInf NegInf = PosInf"
| "num_mul PosInf NegInf = NegInf"
| "num_mul NegInf PosInf = NegInf"

text \<open>
  Division. The source divides by positive literals only, so the sign that a negative
  zero divisor would give to an infinite quotient does not arise.
\<close>

fun num_div :: "number \<Rightarrow> number \<Rightarrow> number" where
  "num_div (Fin a) (Fin b) =
     (if b = 0 then (if a = 0 then NaN else if a > 0 then PosInf else NegInf)
      else fl64 (a / b))"
| "num_div NaN _ = NaN"
| "num_div _ NaN = NaN"
| "num_div (Fin a) _ = Fin 0"
| "num_div PosInf (Fin b) = (if b \<ge> 0 then PosInf else NegInf)"
| "num_div NegInf (Fin b) = (if b \<ge> 0 then NegInf else PosInf)"
| "num_div _ _ = NaN"

text \<open>\<^verbatim>\<open>Math.floor\<close> and \<^verbatim>\<open>Math.min\<close> (of two arguments).\<close>

fun num_floor :: "number \<Rightarrow> number" where
  "num_floor (Fin a) = Fin (of_int \<lfloor>a\<rfloor>)"
| "num_floor n = n"

fun num_min :: "number \<Rightarrow> number \<Rightarrow> number" where
  "num_min NaN _ = NaN"
| "num_min _ NaN = NaN"
| "num_min a b = (if num_lt b a then b else a)"

section \<open>JavaScript values\<close>

text \<open>
  The values a \<^verbatim>\<open>response.json()\<close> can produce, and \<^verbatim>\<open>undefined\<close>. An object is
  the list of its own properties.
\<close>

datatype jsval =
    Undefined
  | Null
  | Bool bool
  | Num number
  | Str string
  | Arr "jsval list"
  | Obj "(string \<times> jsval) list"

text \<open>ToBoolean.\<close>

fun truthy :: "jsval \<Rightarrow> bool" where
  "truthy Undefined = False"
| "truthy Null = False"
| "truthy (Bool b) = b"
| "truthy (Num n) = (n \<noteq> NaN \<and> n \<noteq> Fin 0)"
| "truthy (Str s) = (s \<noteq> [])"
| "truthy (Arr xs) = True"
| "truthy (Obj kvs) = True"

text \<open>The operator \<^verbatim>\<open>a || b\<close>.\<close>

definition js_or :: "jsval \<Rightarrow> jsval \<Rightarrow> jsval" where
  "js_or a b = (if truthy a then a else b)"

text \<open>
  Reading a property of a value that is neither \<^verbatim>\<open>null\<close> nor \<^verbatim>\<open>undefined\<close>:
  an own property of an object, and \<^verbatim>\<open>undefined\<close> otherwise. None of the property
  names the clients read is defined on the prototypes of strings, numbers, booleans,
  arrays or plain objects.
\<close>

fun read_prop :: "jsval \<Rightarrow> string \<Rightarrow> jsval" where
  "read_prop (Obj kvs) k = (case map_of kvs k of Some v \<Rightarrow> v | None \<Rightarrow> Undefined)"
| "read_prop _ k = Undefined"

text \<open>Errors are values: every exception of the source is an \<^verbatim>\<open>Error\<close> with a message.\<close>

datatype js_error = JsError (message: string)

text \<open>
  What the engine supplies and the model does not fix: the conversions between numbers
  and strings, the case mapping of \<^verbatim>\<open>String.prototype.toLowerCase\<close> (which covers
  all of Unicode), and the wording of its TypeErrors: the one raised on reading a property
  of \<^verbatim>\<open>null\<close> or \<^verbatim>\<open>undefined\<close> (given the value and the property name), the one
  raised on calling what is not a function (given the expression called), and the one
  raised when an object cannot be converted to a primitive value.
\<close>

record js_runtime =
  numberToString :: "number \<Rightarrow> string"
  stringToNumber :: "string \<Rightarrow> number"
  toLowerCase :: "string \<Rightarrow> string"
  nullPropertyMessage :: "jsval \<Rightarrow> string \<Rightarrow> string"
  notAFunctionMessage :: "string \<Rightarrow> string"
  toPrimitiveMessage :: string

text \<open>Reading a property \<^verbatim>\<open>v.k\<close>: a TypeError on \<^verbatim>\<open>null\<close> and \<^verbatim>\<open>undefined\<close>.\<close>

definition get :: "js_runtime \<Rightarrow> jsval \<Rightarrow> string \<Rightarrow> js_error + jsval" where
  "get rt v k =
    (if v = Null \<or> v = Undefined then Inl (JsError (nullPropertyMessage rt v k))
     else Inr (read_prop v k))"

text \<open>Optional chaining \<^verbatim>\<open>v?.k\<close>.\<close>

definition read_opt :: "jsval \<Rightarrow> string \<Rightarrow> jsval" where
  "read_opt v k = (if v = Null \<or> v = Undefined then Undefined else read_prop v k)"

fun join :: "string \<Rightarrow> string list \<Rightarrow> string" where
  "join sep [] = []"
| "join sep [x] = x"
| "join sep (x # y # ys) = x @ sep @ join sep (y # ys)"

text \<open>The first error of a list of results, or all their values.\<close>

fun sequence_results :: "(js_error + 'a) list \<Rightarrow> js_error + 'a list" where
  "sequence_results [] = Inr []"
| "sequence_results (Inl e # rs) = Inl e"
| "sequence_results (Inr x # rs) =
     (case sequence_results rs of Inl e \<Rightarrow> Inl e | Inr xs \<Rightarrow> Inr (x # xs))"

text \<open>Whether an object has an own property of the given name.\<close>

definition has_own :: "(string \<times> jsval) list \<Rightarrow> string \<Rightarrow> bool" where
  "has_own kvs k = (map_of kvs k \<noteq> None)"

text \<open>
  ToString, as the \<^verbatim>\<open>Error\<close> constructor applies it. An object is converted by
  ToPrimitive, which calls its \<^verbatim>\<open>toString\<close> and \<^verbatim>\<open>valueOf\<close> when they are
  functions. A parsed JSON object inherits \<^verbatim>\<open>Object.prototype.toString\<close>, which gives
  \<^verbatim>\<open>[object Object]\<close>, unless it has an own property \<^verbatim>\<open>toString\<close>: that one is not
  a function, the inherited \<^verbatim>\<open>valueOf\<close> returns the object itself, and a TypeError is
  raised. An array is joined with commas, \<^verbatim>\<open>null\<close> and \<^verbatim>\<open>undefined\<close> elements
  giving the empty string.
\<close>

fun to_string :: "js_runtime \<Rightarrow> jsval \<Rightarrow> js_error + string" where
  "to_string rt Undefined = Inr ''undefined''"
| "to_string rt Null = Inr ''null''"
| "to_string rt (Bool b) = Inr (if b then ''true'' else ''false'')"
| "to_string rt (Num n) = Inr (numberToString rt n)"
| "to_string rt (Str s) = Inr s"
| "to_string rt (Arr xs) =
     (case sequence_results
             (map (\<lambda>x. if x = Null \<or> x = Undefined then Inr [] else to_string rt x) xs) of
        Inl e \<Rightarrow> Inl e
      | Inr ss \<Rightarrow> Inr (join '','' ss))"
| "to_string rt (Obj kvs) =
     (if has_own kvs ''toString'' then Inl (JsError (toPrimitiveMessage rt))
      else Inr ''[object Object]'')"

text \<open>
  ToNumber, as the operator \<^verbatim>\<open>/\<close> applies it to its left operand. An array converts
  through its string; an object raises the same TypeError as above, and converts to NaN
  otherwise (its string is not a numeral).
\<close>

fun to_number :: "js_runtime \<Rightarrow> jsval \<Rightarrow> js_error + number" where
  "to_number rt Undefined = Inr NaN"
| "to_number rt Null = Inr (Fin 0)"
| "to_number rt (Bool b) = Inr (if b then Fin 1 else Fin 0)"
| "to_number rt (Num n) = Inr n"
| "to_number rt (Str s) = Inr (stringToNumber rt s)"
| "to_number rt (Arr xs) =
     (case to_string rt (Arr xs) of
        Inl e \<Rightarrow> Inl e
      | Inr s \<Rightarrow> Inr (stringToNumber rt s))"
| "to_number rt (Obj kvs) =
     (if has_own kvs ''toString'' then Inl (JsError (toPrimitiveMessage rt)) else Inr NaN)"

text \<open>The operator \<^verbatim>\<open>v / d\<close> with a numeric literal \<open>d\<close> on the right.\<close>

definition js_div :: "js_runtime \<Rightarrow> jsval \<Rightarrow> number \<Rightarrow> js_error + number" where
  "js_div rt v d = (case to_number rt v of Inl e \<Rightarrow> Inl e | Inr n \<Rightarrow> Inr (num_div n d))"

text \<open>Sequencing: the rest of a computation runs on the value, an error is passed on.\<close>

definition and_then :: "js_error + 'a \<Rightarrow> ('a \<Rightarrow> js_error + 'b) \<Rightarrow> js_error + 'b" where
  "and_then m f = (case m of Inl e \<Rightarrow> Inl e | Inr x \<Rightarrow> f x)"

section \<open>Strings\<close>

text \<open>
  Lower case on ASCII text, where every engine's \<^verbatim>\<open>toLowerCase\<close> is this function: the
  letters A to Z (codes 65 to 90) get bit 5 set, which adds 32, and every other character
  is kept. It is the case mapping of the engine of the closed examples, whose strings are
  ASCII.
\<close>

definition ascii_toLowerChar :: "char \<Rightarrow> char" where
  "ascii_toLowerChar c =
    (if 65 \<le> (of_char c :: nat) \<and> (of_char c :: nat) \<le> 90
     then (case c of Char b0 b1 b2 b3 b4 b5 b6 b7 \<Rightarrow> Char b0 b1 b2 b3 b4 True b6 b7)
     else c)"

definition ascii_toLowerCase :: "string \<Rightarrow> string" where
  "ascii_toLowerCase s = map ascii_toLowerChar s"

fun startsWith :: "string \<Rightarrow> string \<Rightarrow> bool" where
  "startsWith s [] = True"
| "startsWith [] (p # ps) = False"
| "startsWith (c # cs) (p # ps) = (c = p \<and> startsWith cs ps)"

text \<open>\<^verbatim>\<open>String.prototype.includes\<close>: the pattern occurs at some position.\<close>

fun str_includes :: "string \<Rightarrow> string \<Rightarrow> bool" where
  "str_includes [] pat = (pat = [])"
| "str_includes (c # cs) pat = (startsWith (c # cs) pat \<or> str_includes cs pat)"

section \<open>Report category normalizer (lib/advanced-dengue-ai-client.ts)\<close>

datatype frontend_category = Hotspot | Potential | Not_Hotspot | Invalid

definition mapBackendCategoryToFrontend :: "js_runtime \<Rightarrow> string \<Rightarrow> frontend_category" where
  "mapBackendCategoryToFrontend rt backendCategory =
    (let category = toLowerCase rt backendCategory in
     if str_includes category ''breeding'' \<or> str_includes category ''high_risk'' \<or>
        str_includes category ''critical'' \<or> str_includes category ''hotspot'' then Hotspot
     else if str_includes category ''medium_risk'' \<or> str_includes category ''potential''
       then Potential
     else if str_includes category ''low_risk'' \<or> str_includes category ''not_breeding'' \<or>
        str_includes category ''clean'' \<or> str_includes category ''safe'' then Not_Hotspot
     else Hotspot)"

section \<open>Weather risk scorer (services/weatherService.ts)\<close>

datatype risk_level = Low | Medium | High | Critical

record risk_assessment =
  risk :: risk_level
  reasoning :: "string list"

text \<open>The two local variables of \<^verbatim>\<open>assessDengueRisk\<close>.\<close>

record assess_state =
  reasons :: "string list"
  riskScore :: int

text \<open>The degree sign of the source's string literals, as its UTF-8 bytes.\<close>

definition degree_sign :: string where
  "degree_sign = [CHR 0xC2, CHR 0xB0]"

text \<open>The reason strings of the source.\<close>

definition reason_temp_optimal :: string where
  "reason_temp_optimal =
     ''Temperature in optimal Aedes breeding range (25-30'' @ degree_sign @ ''C)''"

definition reason_temp_high :: string where
  "reason_temp_high = ''High temperature accelerates mosquito development''"

definition reason_temp_extreme :: string where
  "reason_temp_extreme = ''Extreme heat may reduce mosquito activity''"

definition reason_humidity_moderate :: string where
  "reason_humidity_moderate = ''Moderate humidity suitable for mosquito breeding''"

definition reason_humidity_low :: string where
  "reason_humidity_low = ''Low humidity inhibits mosquito survival''"

definition reason_rain_heavy :: string where
  "reason_rain_heavy = ''Heavy rainfall creates multiple breeding sites''"

definition reason_rain_moderate :: string where
  "reason_rain_moderate = ''Moderate rainfall provides water accumulation''"

definition reason_pattern_critical :: string where
  "reason_pattern_critical =
     ''Conditions match July 2025 heatwave/September flood patterns''"

definition reason_pattern_high :: string where
  "reason_pattern_high = ''Similar to peak monsoon conditions in Selangor''"

definition reason_humidity_high :: "string \<Rightarrow> string" where
  "reason_humidity_high h = ''High humidity ('' @ h @ ''%) supports mosquito survival''"

text \<open>
  The three assessment blocks of \<^verbatim>\<open>assessDengueRisk\<close>, in the order of the source.
  \<open>fmt\<close> is the engine's conversion of a number to a string, used by the template literal
  of the high-humidity reason.
\<close>

definition assessDengueRisk_scoring ::
  "(number \<Rightarrow> string) \<Rightarrow> number \<Rightarrow> number \<Rightarrow> number \<Rightarrow> assess_state" where
  "assessDengueRisk_scoring fmt temp humidity rainfall =
    (let s0 = \<lparr>reasons = [], riskScore = 0\<rparr>;
         s1 = (if num_ge temp (Fin 25) \<and> num_le temp (Fin 30) then
                 \<lparr>reasons = reasons s0 @ [reason_temp_optimal],
                  riskScore = riskScore s0 + 3\<rparr>
               else if num_gt temp (Fin 30) \<and> num_le temp (Fin 35) then
                 \<lparr>reasons = reasons s0 @ [reason_temp_high],
                  riskScore = riskScore s0 + 2\<rparr>
               else if num_gt temp (Fin 35) then
                 \<lparr>reasons = reasons s0 @ [reason_temp_extreme],
                  riskScore = riskScore s0 + 1\<rparr>
               else s0);
         s2 = (if num_ge humidity (Fin 70) then
                 \<lparr>reasons = reasons s1 @ [reason_humidity_high (fmt humidity)],
                  riskScore = riskScore s1 + 3\<rparr>
               else if num_ge humidity (Fin 60) then
                 \<lparr>reasons = reasons s1 @ [reason_humidity_moderate],
                  riskScore = riskScore s1 + 2\<rparr>
               else if num_lt humidity (Fin 50) then
                 \<lparr>reasons = reasons s1 @ [reason_humidity_low],
                  riskScore = riskScore s1 - 1\<rparr>
               else s1);
         s3 = (if num_gt rainfall (Fin 100) then
                 \<lparr>reasons = reasons s2 @ [reason_rain_heavy],
                  riskScore = riskScore s2 + 3\<rparr>
               else if num_gt rainfall (Fin 50) then
                 \<lparr>reasons = reasons s2 @ [reason_rain_moderate],
                  riskScore = riskScore s2 + 2\<rparr>
               else s2)
     in s3)"

text \<open>The whole function: the scoring blocks, then the level and its pattern reason.\<close>

definition assessDengueRisk ::
  "(number \<Rightarrow> string) \<Rightarrow> number \<Rightarrow> number \<Rightarrow> number \<Rightarrow> risk_assessment" where
  "assessDengueRisk fmt temp humidity rainfall =
    (let s = assessDengueRisk_scoring fmt temp humidity rainfall in
     if riskScore s \<ge> 7 then
       \<lparr>risk = Critical,
        reasoning = reasons s @ [reason_pattern_critical]\<rparr>
     else if riskScore s \<ge> 5 then
       \<lparr>risk = High,
        reasoning = reasons s @ [reason_pattern_high]\<rparr>
     else if riskScore s \<ge> 3 then \<lparr>risk = Medium, reasoning = reasons s\<rparr>
     else \<lparr>risk = Low, reasoning = reasons s\<rparr>)"

text \<open>\<^verbatim>\<open>WeatherService.calculateBreedingRisk\<close>\<close>

definition calculateBreedingRisk ::
  "(number \<Rightarrow> string) \<Rightarrow> number \<Rightarrow> number \<Rightarrow> number \<Rightarrow> risk_level" where
  "calculateBreedingRisk fmt temperature humidity rainfall =
     risk (assessDengueRisk fmt temperature humidity rainfall)"

subsection \<open>The reasons, rule by rule, as the specification words them\<close>

text \<open>
  The specification's reading of the reasons: each rule contributes at most one string.
  These definitions follow the specification (section 4.1), to be compared with the
  function above.
\<close>

definition spec_temperature_reasons :: "number \<Rightarrow> string list" where
  "spec_temperature_reasons temp =
    (if num_ge temp (Fin 25) \<and> num_le temp (Fin 30)
       then [reason_temp_optimal]
     else if num_gt temp (Fin 30) \<and> num_le temp (Fin 35)
       then [reason_temp_high]
     else if num_gt temp (Fin 35) then [reason_temp_extreme]
     else [])"

definition spec_humidity_reasons :: "(number \<Rightarrow> string) \<Rightarrow> number \<Rightarrow> string list" where
  "spec_humidity_reasons fmt humidity =
    (if num_ge humidity (Fin 70)
       then [reason_humidity_high (fmt humidity)]
     else if num_ge humidity (Fin 60)
       then [reason_humidity_moderate]
     else if num_lt humidity (Fin 50) then [reason_humidity_low]
     else [])"

definition spec_rainfall_reasons :: "number \<Rightarrow> string list" where
  "spec_rainfall_reasons rainfall =
    (if num_gt rainfall (Fin 100) then [reason_rain_heavy]
     else if num_gt rainfall (Fin 50) then [reason_rain_moderate]
     else [])"

text \<open>The reason the level determination appends after the three rules.\<close>

definition spec_pattern_reasons :: "risk_level \<Rightarrow> string list" where
  "spec_pattern_reasons l =
    (case l of
       Critical \<Rightarrow> [reason_pattern_critical]
     | High \<Rightarrow> [reason_pattern_high]
     | _ \<Rightarrow> [])"

subsection \<open>The score and the level, as the specification words them\<close>

text \<open>
  The points of each rule and the level thresholds of the specification (section 4.1):
  temperature +3 in [25,30], +2 in (30,35], +1 above 35; humidity +3 from 70, +2 in
  [60,70), -1 below 50; rainfall +3 above 100, +2 above 50; level Critical from 7, High
  from 5, Medium from 3, else Low.
\<close>

definition spec_temperature_points :: "number \<Rightarrow> int" where
  "spec_temperature_points temp =
    (if num_ge temp (Fin 25) \<and> num_le temp (Fin 30) then 3
     else if num_gt temp (Fin 30) \<and> num_le temp (Fin 35) then 2
     else if num_gt temp (Fin 35) then 1
     else 0)"

definition spec_humidity_points :: "number \<Rightarrow> int" where
  "spec_humidity_points humidity =
    (if num_ge humidity (Fin 70) then 3
     else if num_ge humidity (Fin 60) \<and> num_lt humidity (Fin 70) then 2
     else if num_lt humidity (Fin 50) then - 1
     else 0)"

definition spec_rainfall_points :: "number \<Rightarrow> int" where
  "spec_rainfall_points rainfall =
    (if num_gt rainfall (Fin 100) then 3
     else if num_gt rainfall (Fin 50) then 2
     else 0)"

definition spec_score :: "number \<Rightarrow> number \<Rightarrow> number \<Rightarrow> int" where
  "spec_score temp humidity rainfall =
     spec_temperature_points temp + spec_humidity_points humidity +
     spec_rainfall_points rainfall"

definition spec_level :: "int \<Rightarrow> risk_level" where
  "spec_level score =
    (if score \<ge> 7 then Critical else if score \<ge> 5 then High
     else if score \<ge> 3 then Medium else Low)"

section \<open>The network\<close>

text \<open>
  A response as the clients read it: the status line and the outcome of
  \<^verbatim>\<open>response.json()\<close>, which rejects when the body is not JSON.
\<close>

record response =
  status_code :: nat
  statusText :: string
  json :: "js_error + jsval"

definition ok :: "response \<Rightarrow> bool" where
  "ok r = (200 \<le> status_code r \<and> status_code r \<le> 299)"

text \<open>\<^verbatim>\<open>fetch\<close> rejects on a transport error and resolves with a response otherwise.\<close>

datatype fetch_result = NetworkError js_error | Response response

datatype form_entry = Text string | Blob string

datatype request_body = NoBody | JsonBody jsval | FormData "(string \<times> form_entry) list"

record request =
  url :: string
  http_method :: string
  headers :: "(string \<times> string) list"
  body :: request_body

text \<open>The backend, as seen from the client: what each request is answered with.\<close>

type_synonym backend = "request \<Rightarrow> fetch_result"

text \<open>Following a path of property names into a value.\<close>

fun path :: "jsval \<Rightarrow> string list \<Rightarrow> jsval" where
  "path v [] = v"
| "path v (k # ks) = path (read_prop v k) ks"

section \<open>Prediction client (lib/advanced-dengue-ai-client.ts)\<close>

record OutbreakPredictionRequest =
  location :: string
  state :: string
  temperature :: "number option"
  humidity :: "number option"
  rainfall :: "number option"
  wind_speed :: "number option"
  description :: "string option"
  date :: "string option"

text \<open>An optional number as a value: an absent field reads as \<^verbatim>\<open>undefined\<close>.\<close>

definition opt_num :: "number option \<Rightarrow> jsval" where
  "opt_num x = (case x of None \<Rightarrow> Undefined | Some n \<Rightarrow> Num n)"

definition opt_str :: "string option \<Rightarrow> jsval" where
  "opt_str x = (case x of None \<Rightarrow> Undefined | Some s \<Rightarrow> Str s)"

text \<open>ToNumber of an optional number: \<^verbatim>\<open>undefined\<close> converts to NaN.\<close>

definition opt_to_number :: "number option \<Rightarrow> number" where
  "opt_to_number x = (case x of None \<Rightarrow> NaN | Some n \<Rightarrow> n)"

text \<open>
  \<^verbatim>\<open>JSON.stringify\<close> of an object literal, as the receiver parses it: a property whose
  value is \<^verbatim>\<open>undefined\<close> is left out, and a number that is not finite is written
  \<^verbatim>\<open>null\<close>.
\<close>

definition stringify_field :: "string \<Rightarrow> jsval \<Rightarrow> (string \<times> jsval) list" where
  "stringify_field k v =
    (case v of
       Undefined \<Rightarrow> []
     | Num (Fin q) \<Rightarrow> [(k, Num (Fin q))]
     | Num _ \<Rightarrow> [(k, Null)]
     | _ \<Rightarrow> [(k, v)])"

definition recommendations_simulated :: jsval where
  "recommendations_simulated = Arr
    [Str ''Remove all sources of standing water'',
     Str ''Use mosquito repellent during peak hours'',
     Str ''Keep surroundings clean and dry'',
     Str ''Monitor for fever symptoms'',
     Str ''Contact local health authorities if symptoms appear'']"

definition recommendations_default :: jsval where
  "recommendations_default = Arr
    [Str ''Remove all sources of standing water'',
     Str ''Use mosquito repellent during peak hours'',
     Str ''Keep surroundings clean and dry'',
     Str ''Monitor for fever symptoms'']"

text \<open>
  \<^verbatim>\<open>getSimulatedPrediction\<close>: its local constants, then the object it returns. A
  comparison with an absent field compares with NaN and is false.
\<close>

definition tempRisk :: "OutbreakPredictionRequest \<Rightarrow> number" where
  "tempRisk data =
    (if num_gt (opt_to_number (temperature data)) (Fin 28) then dec (8 / 10) else dec (5 / 10))"

definition humidityRisk :: "OutbreakPredictionRequest \<Rightarrow> number" where
  "humidityRisk data =
    (if num_gt (opt_to_number (humidity data)) (Fin 70) then dec (9 / 10) else dec (6 / 10))"

definition rainfallRisk :: "OutbreakPredictionRequest \<Rightarrow> number" where
  "rainfallRisk data =
    (if num_gt (opt_to_number (rainfall data)) (Fin 5) then dec (7 / 10) else dec (4 / 10))"

definition avgRisk :: "OutbreakPredictionRequest \<Rightarrow> number" where
  "avgRisk data =
     num_div (num_add (num_add (tempRisk data) (humidityRisk data)) (rainfallRisk data)) (Fin 3)"

definition riskLevel :: "OutbreakPredictionRequest \<Rightarrow> string" where
  "riskLevel data =
    (if num_gt (avgRisk data) (dec (8 / 10)) then ''Critical''
     else if num_gt (avgRisk data) (dec (6 / 10)) then ''High''
     else if num_gt (avgRisk data) (dec (4 / 10)) then ''Medium''
     else ''Low'')"

text \<open>\<open>now\<close> is \<^verbatim>\<open>new Date().toISOString()\<close>.\<close>

definition getSimulatedPrediction :: "string \<Rightarrow> OutbreakPredictionRequest \<Rightarrow> jsval" where
  "getSimulatedPrediction now data = Obj
    [(''status'', Str ''success (simulated)''),
     (''prediction'', Obj
       [(''outbreak_probability'', Num (avgRisk data)),
        (''risk_level'', Str (riskLevel data)),
        (''predicted_cases'', Num (num_floor (num_mul (avgRisk data) (Fin 150)))),
        (''confidence'', Num (dec (75 / 100)))]),
     (''environmental_factors'', Obj
       [(''temperature_impact'', Num (tempRisk data)),
        (''humidity_impact'', Num (humidityRisk data)),
        (''rainfall_impact'', Num (rainfallRisk data)),
        (''population_density_impact'', Num (dec (6 / 10)))]),
     (''recommendations'', recommendations_simulated),
     (''real_ai_analysis'', Obj
       [(''model_used'', Str ''RandomForest''),
        (''feature_importance'', Obj
          [(''temperature'', Num (tempRisk data)),
           (''humidity'', Num (humidityRisk data)),
           (''rainfall'', Num (rainfallRisk data))]),
        (''accuracy_score'', Num (dec (75 / 100))),
        (''data_source'', Str ''Malaysian_Real_Data'')]),
     (''quantum_insights'', Obj
       [(''optimal_response_strategy'', Str ''Standard prevention with monitoring''),
        (''resource_allocation'', Obj
          [(''prevention_priority'', Str (riskLevel data)),
           (''monitoring_intensity'', Str ''Standard'')])]),
     (''weather_data'', Obj
       [(''temperature'', opt_num (temperature data)),
        (''humidity'', opt_num (humidity data)),
        (''rainfall'', opt_num (rainfall data)),
        (''simulated'', Bool True)]),
     (''timestamp'', Str now)]"

text \<open>The two requests of \<^verbatim>\<open>predictOutbreak\<close>.\<close>

definition health_request :: "string \<Rightarrow> request" where
  "health_request baseUrl =
    \<lparr>url = baseUrl @ ''/health'', http_method = ''GET'',
     headers = [(''Content-Type'', ''application/json'')], body = NoBody\<rparr>"

definition live_weather_request :: "string \<Rightarrow> OutbreakPredictionRequest \<Rightarrow> request" where
  "live_weather_request baseUrl data =
    \<lparr>url = baseUrl @ ''/predict/live-weather'', http_method = ''POST'',
     headers = [(''Content-Type'', ''application/json''), (''Accept'', ''application/json'')],
     body = JsonBody (Obj
       (stringify_field ''location'' (Str (location data)) @
        stringify_field ''state'' (Str ''Selangor'') @
        stringify_field ''temperature'' (opt_num (temperature data)) @
        stringify_field ''humidity'' (opt_num (humidity data)) @
        stringify_field ''rainfall'' (opt_num (rainfall data))))\<rparr>"

text \<open>
  The transformation of a successful payload: the two local constants, then the object
  literal returned at the end of the \<^verbatim>\<open>try\<close> block. It is reached only after
  \<^verbatim>\<open>result.error\<close> has been read, so \<open>result\<close> is not \<^verbatim>\<open>null\<close>; \<open>prediction\<close>
  is a truthy value or \<open>result\<close>, and \<open>weatherData\<close> is read only when truthy or through
  optional chaining: none of the property reads below can raise. The divisions can: they
  convert their left operand to a number. They are evaluated in the order of the object
  literal, and the first error leaves the \<^verbatim>\<open>try\<close> block.
\<close>

definition selectPrediction :: "jsval \<Rightarrow> jsval" where
  "selectPrediction result =
     js_or (js_or (js_or (read_prop result ''ai_analysis'')
                         (read_prop result ''risk_assessment''))
                  (read_prop result ''basic_prediction''))
           result"

definition selectWeatherData :: "jsval \<Rightarrow> jsval" where
  "selectWeatherData result =
     js_or (read_prop result ''real_weather_data'') (read_prop result ''weather_data'')"

text \<open>The expression \<^verbatim>\<open>weatherData ? Math.min(weatherData.rainfall / 50, 1) : 0.3\<close>.\<close>

definition rainfall_share :: "js_runtime \<Rightarrow> jsval \<Rightarrow> js_error + number" where
  "rainfall_share rt weatherData =
    (if truthy weatherData
     then and_then (js_div rt (read_prop weatherData ''rainfall'') (Fin 50))
            (\<lambda>q. Inr (num_min q (Fin 1)))
     else Inr (dec (3 / 10)))"

definition transformPrediction :: "js_runtime \<Rightarrow> string \<Rightarrow> jsval \<Rightarrow> js_error + jsval" where
  "transformPrediction rt now result =
    (let prediction = selectPrediction result;
         weatherData = selectWeatherData result
     in
     and_then (js_div rt
                 (js_or (js_or (read_prop prediction ''risk_score'')
                               (read_prop prediction ''confidence''))
                        (Num (dec (7 / 10))))
                 (Fin 100))
       (\<lambda>outbreak_probability.
     and_then (if truthy weatherData
               then js_div rt (read_prop weatherData ''temperature'') (Fin 40)
               else Inr (dec (75 / 100)))
       (\<lambda>temperature_impact.
     and_then (if truthy weatherData
               then js_div rt (read_prop weatherData ''humidity'') (Fin 100)
               else Inr (dec (8 / 10)))
       (\<lambda>humidity_impact.
     and_then (rainfall_share rt weatherData)
       (\<lambda>rainfall_impact.
     and_then (js_div rt (read_opt weatherData ''temperature'') (Fin 40))
       (\<lambda>temperature_importance.
     and_then (js_div rt (read_opt weatherData ''humidity'') (Fin 100))
       (\<lambda>humidity_importance.
     and_then (rainfall_share rt weatherData)
       (\<lambda>rainfall_importance.
     Inr (Obj
       [(''status'', Str ''success''),
        (''prediction'', Obj
          [(''outbreak_probability'', Num outbreak_probability),
           (''risk_level'', js_or (read_prop prediction ''risk_level'') (Str ''Medium'')),
           (''predicted_cases'', js_or (read_prop prediction ''predicted_cases'') (Num (Fin 85))),
           (''confidence'', js_or (read_prop prediction ''confidence'') (Num (dec (85 / 100))))]),
        (''environmental_factors'', Obj
          [(''temperature_impact'', Num temperature_impact),
           (''humidity_impact'', Num humidity_impact),
           (''rainfall_impact'', Num rainfall_impact),
           (''population_density_impact'', Num (dec (6 / 10)))]),
        (''recommendations'', js_or (read_prop result ''recommendations'') recommendations_default),
        (''real_ai_analysis'', Obj
          [(''model_used'', Str ''RandomForest''),
           (''feature_importance'', Obj
             [(''temperature'', js_or (Num temperature_importance) (Num (dec (75 / 100)))),
              (''humidity'', js_or (Num humidity_importance) (Num (dec (8 / 10)))),
              (''rainfall'', Num rainfall_importance)]),
           (''accuracy_score'', Num (dec (89 / 100))),
           (''data_source'', Str ''Malaysian_Real_Data'')]),
        (''quantum_insights'', Obj
          [(''optimal_response_strategy'',
              Str ''Enhanced monitoring with immediate prevention''),
           (''resource_allocation'', Obj
             [(''prevention_priority'', Str ''High''),
              (''monitoring_intensity'', Str ''Enhanced'')])]),
        (''weather_data'', weatherData),
        (''timestamp'', Str now)])))))))))"

text \<open>
  The \<^verbatim>\<open>try\<close> block of \<^verbatim>\<open>predictOutbreak\<close>: the requests issued, in order, and
  either the exception raised or the value returned. On a response that is not OK the
  source also reads the body for logging, inside its own \<^verbatim>\<open>try\<close>; that has no
  effect on the result.
\<close>

definition predictOutbreak_try ::
  "js_runtime \<Rightarrow> string \<Rightarrow> backend \<Rightarrow> string \<Rightarrow> OutbreakPredictionRequest \<Rightarrow>
   request list \<times> (js_error + jsval)" where
  "predictOutbreak_try rt baseUrl backend now data =
    (let hr = health_request baseUrl in
     case backend hr of
       NetworkError e \<Rightarrow> ([hr], Inl e)
     | Response healthResponse \<Rightarrow>
         if \<not> ok healthResponse then ([hr], Inr (getSimulatedPrediction now data))
         else
           let pr = live_weather_request baseUrl data in
           case backend pr of
             NetworkError e \<Rightarrow> ([hr, pr], Inl e)
           | Response response \<Rightarrow>
               if \<not> ok response then ([hr, pr], Inr (getSimulatedPrediction now data))
               else
                 case json response of
                   Inl e \<Rightarrow> ([hr, pr], Inl e)
                 | Inr result \<Rightarrow>
                     (case get rt result ''error'' of
                        Inl e \<Rightarrow> ([hr, pr], Inl e)
                      | Inr err \<Rightarrow>
                          if truthy err
                          then ([hr, pr], Inr (getSimulatedPrediction now data))
                          else ([hr, pr], transformPrediction rt now result)))"

text \<open>
  \<^verbatim>\<open>predictOutbreak\<close>: the \<^verbatim>\<open>catch\<close> clause returns the simulated prediction,
  whatever was raised: by a \<^verbatim>\<open>fetch\<close>, by \<^verbatim>\<open>response.json()\<close>, by reading
  \<^verbatim>\<open>result.error\<close> or by a division of the transformation.
\<close>

definition predictOutbreak ::
  "js_runtime \<Rightarrow> string \<Rightarrow> backend \<Rightarrow> string \<Rightarrow> OutbreakPredictionRequest \<Rightarrow>
   request list \<times> (js_error + jsval)" where
  "predictOutbreak rt baseUrl backend now data =
    (case predictOutbreak_try rt baseUrl backend now data of
       (reqs, Inl error) \<Rightarrow> (reqs, Inr (getSimulatedPrediction now data))
     | (reqs, Inr r) \<Rightarrow> (reqs, Inr r))"

text \<open>
  The fields of the specification's prediction result (section 3) in the returned
  object, and what it is for a result to have all of them: none is \<^verbatim>\<open>undefined\<close>
  or \<^verbatim>\<open>null\<close>.
\<close>

definition prediction_result_paths :: "string list list" where
  "prediction_result_paths =
    [[''status''],
     [''prediction'', ''outbreak_probability''],
     [''prediction'', ''risk_level''],
     [''prediction'', ''predicted_cases''],
     [''prediction'', ''confidence''],
     [''environmental_factors'', ''temperature_impact''],
     [''environmental_factors'', ''humidity_impact''],
     [''environmental_factors'', ''rainfall_impact''],
     [''environmental_factors'', ''population_density_impact''],
     [''recommendations''],
     [''timestamp'']]"

definition fully_populated :: "jsval \<Rightarrow> bool" where
  "fully_populated r =
     list_all (\<lambda>p. path r p \<noteq> Undefined \<and> path r p \<noteq> Null) prediction_result_paths"

text \<open>Whether a \<^verbatim>\<open>fetch\<close> resolved with an OK response.\<close>

definition responds_ok :: "fetch_result \<Rightarrow> bool" where
  "responds_ok f = (case f of NetworkError e \<Rightarrow> False | Response r \<Rightarrow> ok r)"

subsection \<open>The second client of the same file\<close>

text \<open>
  The file holds a second \<^verbatim>\<open>AdvancedDengueAIClient\<close>, whose \<^verbatim>\<open>predictOutbreak\<close>
  posts the whole request to \<^verbatim>\<open>/predict\<close> and returns the backend's response as it is.
\<close>

definition healthCheck2 :: "string \<Rightarrow> backend \<Rightarrow> request list \<times> bool" where
  "healthCheck2 baseUrl backend =
    (let hr = \<lparr>url = baseUrl @ ''/health'', http_method = ''GET'', headers = [], body = NoBody\<rparr>
     in case backend hr of
          NetworkError e \<Rightarrow> ([hr], False)
        | Response r \<Rightarrow> ([hr], ok r))"

definition predict_request2 :: "string \<Rightarrow> OutbreakPredictionRequest \<Rightarrow> request" where
  "predict_request2 baseUrl data =
    \<lparr>url = baseUrl @ ''/predict'', http_method = ''POST'',
     headers = [(''Content-Type'', ''application/json'')],
     body = JsonBody (Obj
       (stringify_field ''location'' (Str (location data)) @
        stringify_field ''state'' (Str (state data)) @
        stringify_field ''temperature'' (opt_num (temperature data)) @
        stringify_field ''humidity'' (opt_num (humidity data)) @
        stringify_field ''rainfall'' (opt_num (rainfall data)) @
        stringify_field ''wind_speed'' (opt_num (wind_speed data)) @
        stringify_field ''description'' (opt_str (description data)) @
        stringify_field ''date'' (opt_str (date data))))\<rparr>"

definition predictOutbreak2_try ::
  "js_runtime \<Rightarrow> string \<Rightarrow> backend \<Rightarrow> OutbreakPredictionRequest \<Rightarrow>
   request list \<times> (js_error + jsval)" where
  "predictOutbreak2_try rt baseUrl backend data =
    (case healthCheck2 baseUrl backend of
       (reqs, isHealthy) \<Rightarrow>
         if \<not> isHealthy then
           (reqs, Inl (JsError
              ''AI service is currently unavailable. Please try again later.''))
         else
           let pr = predict_request2 baseUrl data in
           case backend pr of
             NetworkError e \<Rightarrow> (reqs @ [pr], Inl e)
           | Response response \<Rightarrow>
               if \<not> ok response then
                 (let errorData =
                        (case json response of
                           Inl e \<Rightarrow> Obj [(''detail'',
                              js_or (Str (statusText response)) (Str ''Unknown error occurred''))]
                         | Inr v \<Rightarrow> v)
                  in case get rt errorData ''detail'' of
                       Inl e \<Rightarrow> (reqs @ [pr], Inl e)
                     | Inr detail \<Rightarrow>
                         (case to_string rt
                                 (js_or detail
                                    (Str ''Failed to get prediction from AI model'')) of
                            Inl e \<Rightarrow> (reqs @ [pr], Inl e)
                          | Inr m \<Rightarrow> (reqs @ [pr], Inl (JsError m))))
               else
                 (case json response of
                    Inl e \<Rightarrow> (reqs @ [pr], Inl e)
                  | Inr result \<Rightarrow> (reqs @ [pr], Inr result)))"

text \<open>Its \<^verbatim>\<open>catch\<close> clause throws a new \<^verbatim>\<open>Error\<close> with the same message.\<close>

definition predictOutbreak2 ::
  "js_runtime \<Rightarrow> string \<Rightarrow> backend \<Rightarrow> OutbreakPredictionRequest \<Rightarrow>
   request list \<times> (js_error + jsval)" where
  "predictOutbreak2 rt baseUrl backend data =
    (case predictOutbreak2_try rt baseUrl backend data of
       (reqs, Inl error) \<Rightarrow> (reqs, Inl (JsError (message error)))
     | (reqs, Inr r) \<Rightarrow> (reqs, Inr r))"

section \<open>Report client (lib/advanced-dengue-ai-client.ts)\<close>

definition API_BASE_URL :: string where
  "API_BASE_URL = ''http://localhost:8002''"

definition category_name :: "frontend_category \<Rightarrow> string" where
  "category_name c =
    (case c of Hotspot \<Rightarrow> ''Hotspot'' | Potential \<Rightarrow> ''Potential''
     | Not_Hotspot \<Rightarrow> ''Not Hotspot'' | Invalid \<Rightarrow> ''Invalid'')"

text \<open>
  The call \<^verbatim>\<open>this.mapBackendCategoryToFrontend(v)\<close> on a value of any type: a value that
  is not a string has no \<^verbatim>\<open>toLowerCase\<close>, and the call raises a TypeError.
\<close>

definition mapBackendCategoryToFrontend_call ::
  "js_runtime \<Rightarrow> jsval \<Rightarrow> js_error + frontend_category" where
  "mapBackendCategoryToFrontend_call rt v =
    (case v of
       Str s \<Rightarrow> Inr (mapBackendCategoryToFrontend rt s)
     | _ \<Rightarrow> Inl (JsError (notAFunctionMessage rt ''backendCategory.toLowerCase'')))"

text \<open>The multipart form of \<^verbatim>\<open>submitReport\<close>.\<close>

definition report_form ::
  "js_runtime \<Rightarrow> string \<Rightarrow> string \<Rightarrow> string option \<Rightarrow> number option \<Rightarrow> number option \<Rightarrow>
   string option \<Rightarrow> (string \<times> form_entry) list" where
  "report_form rt loc descr imageFile latitude longitude reporterContact =
     [(''location'', Text loc), (''description'', Text descr)] @
     (case latitude of None \<Rightarrow> []
      | Some la \<Rightarrow> [(''latitude'', Text (numberToString rt la))]) @
     (case longitude of None \<Rightarrow> []
      | Some lo \<Rightarrow> [(''longitude'', Text (numberToString rt lo))]) @
     (case reporterContact of None \<Rightarrow> []
      | Some c \<Rightarrow> if c \<noteq> [] then [(''reporter_contact'', Text c)] else []) @
     (case imageFile of None \<Rightarrow> [] | Some f \<Rightarrow> [(''image'', Blob f)])"

definition report_request ::
  "js_runtime \<Rightarrow> string \<Rightarrow> string \<Rightarrow> string \<Rightarrow> string option \<Rightarrow> number option \<Rightarrow>
   number option \<Rightarrow> string option \<Rightarrow> request" where
  "report_request rt baseUrl loc descr imageFile latitude longitude reporterContact =
    \<lparr>url = baseUrl @ ''/api/v1/report'', http_method = ''POST'', headers = [],
     body = FormData (report_form rt loc descr imageFile latitude longitude reporterContact)\<rparr>"

text \<open>
  The object literal returned on success, once \<^verbatim>\<open>result.status\<close> has been read (so
  \<open>result\<close> is not \<^verbatim>\<open>null\<close>) and the category computed. \<open>now_iso\<close> is
  \<^verbatim>\<open>new Date().toISOString()\<close> and \<open>now_ms\<close> is \<^verbatim>\<open>Date.now()\<close>.
\<close>

definition reportResult ::
  "js_runtime \<Rightarrow> string \<Rightarrow> number \<Rightarrow> jsval \<Rightarrow> frontend_category \<Rightarrow> jsval" where
  "reportResult rt now_iso now_ms result cat = Obj
    [(''status'', js_or (read_prop result ''status'') (Str ''success'')),
     (''classification'', Obj
       [(''category'', Str (category_name cat)),
        (''confidence'', js_or (read_prop result ''confidence'') (Num (Fin 0))),
        (''description'',
           js_or (read_prop result ''ai_classification'') (Str ''Analysis completed'')),
        (''risk_level'', js_or (read_prop result ''risk_level'') (Str ''Medium''))]),
     (''ai_analysis'', Obj
       [(''efficientnet_prediction'',
           js_or (read_prop result ''ai_classification'')
                 (Str ''Quantum-Enhanced CNN Analysis'')),
        (''confidence_score'', js_or (read_prop result ''confidence'') (Num (Fin 0))),
        (''feature_analysis'',
           js_or (read_opt (read_prop result ''detailed_analysis'') ''features'') (Arr [])),
        (''recommendations'', js_or (read_prop result ''recommendations'') (Arr []))]),
     (''gamification'', Obj
       [(''points_awarded'',
           js_or (js_or (read_prop result ''points_earned'')
                        (read_prop result ''points_awarded''))
                 (Num (Fin 50))),
        (''xp_gained'',
           js_or (js_or (read_prop result ''xp_earned'') (read_prop result ''xp_gained''))
                 (Num (Fin 25))),
        (''achievement_unlocked'', read_prop result ''achievement_unlocked''),
        (''level_up'', js_or (read_prop result ''level_up'') (Bool False))]),
     (''weather_data'', read_prop result ''weather_data''),
     (''quantum_optimization'', read_prop result ''quantum_optimization''),
     (''timestamp'', js_or (read_prop result ''timestamp'') (Str now_iso)),
     (''image_id'',
        js_or (read_prop result ''report_id'')
              (Str (''report_'' @ numberToString rt now_ms)))]"

text \<open>The \<^verbatim>\<open>try\<close> block of \<^verbatim>\<open>submitReport\<close>.\<close>

definition submitReport_try ::
  "js_runtime \<Rightarrow> string \<Rightarrow> backend \<Rightarrow> string \<Rightarrow> number \<Rightarrow> string \<Rightarrow> string \<Rightarrow>
   string option \<Rightarrow> number option \<Rightarrow> number option \<Rightarrow> string option \<Rightarrow>
   request list \<times> (js_error + jsval)" where
  "submitReport_try rt baseUrl backend now_iso now_ms loc descr imageFile latitude longitude
     reporterContact =
    (let rq = report_request rt baseUrl loc descr imageFile latitude longitude reporterContact
     in case backend rq of
       NetworkError e \<Rightarrow> ([rq], Inl e)
     | Response response \<Rightarrow>
         if \<not> ok response then
           (let errorData =
                  (case json response of
                     Inl e \<Rightarrow> Obj [(''detail'', Str (statusText response))]
                   | Inr v \<Rightarrow> v)
            in case get rt errorData ''detail'' of
                 Inl e \<Rightarrow> ([rq], Inl e)
               | Inr detail \<Rightarrow>
                   (case to_string rt
                           (js_or detail
                              (Str (''Report submission failed: '' @ statusText response))) of
                      Inl e \<Rightarrow> ([rq], Inl e)
                    | Inr m \<Rightarrow> ([rq], Inl (JsError m))))
         else
           (case json response of
              Inl e \<Rightarrow> ([rq], Inl e)
            | Inr result \<Rightarrow>
                (case get rt result ''status'' of
                   Inl e \<Rightarrow> ([rq], Inl e)
                 | Inr st \<Rightarrow>
                     (case mapBackendCategoryToFrontend_call rt
                             (js_or (read_prop result ''ai_classification'')
                                    (Str ''breeding_site'')) of
                        Inl e \<Rightarrow> ([rq], Inl e)
                      | Inr cat \<Rightarrow>
                          ([rq], Inr (reportResult rt now_iso now_ms result cat))))))"

text \<open>
  \<^verbatim>\<open>submitReport\<close>: the \<^verbatim>\<open>catch\<close> clause rethrows with a prefixed message.
\<close>

definition submitReport ::
  "js_runtime \<Rightarrow> string \<Rightarrow> backend \<Rightarrow> string \<Rightarrow> number \<Rightarrow> string \<Rightarrow> string \<Rightarrow>
   string option \<Rightarrow> number option \<Rightarrow> number option \<Rightarrow> string option \<Rightarrow>
   request list \<times> (js_error + jsval)" where
  "submitReport rt baseUrl backend now_iso now_ms loc descr imageFile latitude longitude
     reporterContact =
    (case submitReport_try rt baseUrl backend now_iso now_ms loc descr imageFile latitude
            longitude reporterContact of
       (reqs, Inl error) \<Rightarrow>
         (reqs, Inl (JsError (''Report submission failed: '' @ message error)))
     | (reqs, Inr r) \<Rightarrow> (reqs, Inr r))"

section \<open>Weather gateway cache (services/weatherService.ts)\<close>

definition WEATHERSTACK_API_KEY :: string where
  "WEATHERSTACK_API_KEY = ''bc84b5b2cc1bd78082aa639929e9c533''"

definition WEATHERSTACK_BASE_URL :: string where
  "WEATHERSTACK_BASE_URL = ''http://api.weatherstack.com''"

text \<open>An entry of \<^verbatim>\<open>WeatherService.cache\<close>: the data and the time it was stored.\<close>

record cache_entry =
  entry_data :: jsval
  entry_timestamp :: int

type_synonym cache = "string \<rightharpoonup> cache_entry"

definition cacheTimeout :: int where
  "cacheTimeout = 10 * 60 * 1000"

text \<open>
  \<^verbatim>\<open>getWeatherStackData\<close>. \<open>encode\<close> is \<^verbatim>\<open>encodeURIComponent\<close>; \<open>t_check\<close> and
  \<open>t_store\<close> are the values of \<^verbatim>\<open>Date.now()\<close> at the cache check and when the
  result is stored. An absent argument takes the default location. The function returns
  the requests issued, the cache afterwards and the data (\<^verbatim>\<open>null\<close> on failure).
\<close>

definition weatherstack_request :: "(string \<Rightarrow> string) \<Rightarrow> string \<Rightarrow> request" where
  "weatherstack_request encode loc =
    \<lparr>url = WEATHERSTACK_BASE_URL @ ''/current?access_key='' @ WEATHERSTACK_API_KEY @
           ''&query='' @ encode loc,
     http_method = ''GET'', headers = [], body = NoBody\<rparr>"

text \<open>The default value of the parameter \<^verbatim>\<open>location\<close>.\<close>

definition location_or_default :: "string option \<Rightarrow> string" where
  "location_or_default location_arg =
    (case location_arg of None \<Rightarrow> ''Kuala Lumpur'' | Some l \<Rightarrow> l)"

text \<open>The \<^verbatim>\<open>try\<close> block: every failure is caught and \<^verbatim>\<open>null\<close> returned.\<close>

definition getWeatherStackData_fetch ::
  "(string \<Rightarrow> string) \<Rightarrow> backend \<Rightarrow> int \<Rightarrow> cache \<Rightarrow> string \<Rightarrow> string \<Rightarrow>
   request list \<times> cache \<times> jsval" where
  "getWeatherStackData_fetch encode backend t_store c loc cacheKey =
    (let rq = weatherstack_request encode loc in
     case backend rq of
       NetworkError e \<Rightarrow> ([rq], c, Null)
     | Response response \<Rightarrow>
         if \<not> ok response then ([rq], c, Null)
         else
           (case json response of
              Inl e \<Rightarrow> ([rq], c, Null)
            | Inr d \<Rightarrow>
                ([rq], c(cacheKey \<mapsto> \<lparr>entry_data = d, entry_timestamp = t_store\<rparr>), d)))"

definition getWeatherStackData ::
  "(string \<Rightarrow> string) \<Rightarrow> backend \<Rightarrow> int \<Rightarrow> int \<Rightarrow> cache \<Rightarrow> string option \<Rightarrow>
   request list \<times> cache \<times> jsval" where
  "getWeatherStackData encode backend t_check t_store c location_arg =
    (let loc = location_or_default location_arg;
         cacheKey = ''weatherstack_'' @ loc
     in case c cacheKey of
          Some entry \<Rightarrow>
            if t_check - entry_timestamp entry < cacheTimeout
            then ([], c, entry_data entry)
            else getWeatherStackData_fetch encode backend t_store c loc cacheKey
        | None \<Rightarrow> getWeatherStackData_fetch encode backend t_store c loc cacheKey)"

section \<open>Sample inputs\<close>

text \<open>
  An engine for the closed examples, with V8's wording of the TypeErrors and the lower
  case of ASCII text. The strings of the examples are ASCII, and no example depends on
  the conversions between numbers and strings.
\<close>

definition sample_runtime :: js_runtime where
  "sample_runtime =
    \<lparr>numberToString = (\<lambda>n. ''0''),
     stringToNumber = (\<lambda>s. NaN),
     toLowerCase = ascii_toLowerCase,
     nullPropertyMessage =
       (\<lambda>v k. ''Cannot read properties of '' @
              (if v = Undefined then ''undefined'' else ''null'') @
              '' (reading '' @ [CHR 0x27] @ k @ [CHR 0x27] @ '')''),
     notAFunctionMessage = (\<lambda>x. x @ '' is not a function''),
     toPrimitiveMessage = ''Cannot convert object to primitive value''\<rparr>"

text \<open>A backend that cannot be reached, and one that answers every request alike.\<close>

definition backend_down :: backend where
  "backend_down q = NetworkError (JsError ''Failed to fetch'')"

definition backend_replying :: "response \<Rightarrow> backend" where
  "backend_replying r q = Response r"

text \<open>A healthy backend that answers the prediction request with a given payload.\<close>

definition backend_healthy :: "jsval \<Rightarrow> backend" where
  "backend_healthy payload q =
    (if url q = API_BASE_URL @ ''/health''
     then Response \<lparr>status_code = 200, statusText = ''OK'',
            json = Inr (Obj [(''status'', Str ''healthy'')])\<rparr>
     else Response \<lparr>status_code = 200, statusText = ''OK'', json = Inr payload\<rparr>)"

definition sample_now :: string where
  "sample_now = ''2025-09-20T08:00:00.000Z''"

text \<open>The request of the specification's example, and of the repository's test script.\<close>

definition request_32_80_10 :: OutbreakPredictionRequest where
  "request_32_80_10 =
    \<lparr>location = ''Kuala Lumpur'', state = ''Selangor'',
     temperature = Some (Fin 32), humidity = Some (Fin 80), rainfall = Some (Fin 10),
     wind_speed = None, description = None, date = None\<rparr>"

text \<open>A weather provider that answers with a fixed payload.\<close>

definition weather_payload :: jsval where
  "weather_payload = Obj
    [(''current'', Obj [(''temperature'', Num (Fin 31)), (''humidity'', Num (Fin 78)),
                        (''precip'', Num (Fin 2))]),
     (''location'', Obj [(''name'', Str ''Shah Alam''), (''region'', Str ''Selangor'')])]"

definition weather_backend :: backend where
  "weather_backend =
     backend_replying \<lparr>status_code = 200, statusText = ''OK'', json = Inr weather_payload\<rparr>"

text \<open>Payloads and responses of the closed examples.\<close>

definition payload_without_defaults :: jsval where
  "payload_without_defaults = Obj [(''risk_level'', Str ''High''), (''risk_score'', Num (Fin 72))]"

definition payload_zero_fields :: jsval where
  "payload_zero_fields = Obj
    [(''risk_level'', Str ''Low''), (''confidence'', Num (Fin 0)),
     (''predicted_cases'', Num (Fin 0))]"

definition report_zero_rewards :: jsval where
  "report_zero_rewards = Obj
    [(''ai_classification'', Str ''clean_area''), (''points_earned'', Num (Fin 0)),
     (''xp_earned'', Num (Fin 0))]"

definition report_zero_and_legacy :: jsval where
  "report_zero_and_legacy = Obj
    [(''ai_classification'', Str ''clean_area''), (''points_earned'', Num (Fin 0)),
     (''points_awarded'', Num (Fin 30))]"

text \<open>A prediction payload whose weather data has no temperature.\<close>

definition payload_weather_without_temperature :: jsval where
  "payload_weather_without_temperature = Obj
    [(''risk_level'', Str ''High''), (''confidence'', Num (Fin 90)),
     (''weather_data'', Obj [(''humidity'', Num (Fin 80)), (''rainfall'', Num (Fin 10))])]"

definition ok_response :: "jsval \<Rightarrow> response" where
  "ok_response payload = \<lparr>status_code = 200, statusText = ''OK'', json = Inr payload\<rparr>"

definition response_null_body :: response where
  "response_null_body = \<lparr>status_code = 400, statusText = ''Bad Request'', json = Inr Null\<rparr>"

definition response_validation_error :: response where
  "response_validation_error =
    \<lparr>status_code = 422, statusText = ''Unprocessable Entity'',
     json = Inr (Obj [(''detail'', Arr [Obj
       [(''loc'', Arr [Str ''body'', Str ''location'']),
        (''msg'', Str ''field required''),
        (''type'', Str ''value_error.missing'')]])])\<rparr>"

section \<open>Properties of the scorer\<close>

lemma scoring_reasons:
  "reasons (assessDengueRisk_scoring fmt temp hum rain) =
     spec_temperature_reasons temp @ spec_humidity_reasons fmt hum @
     spec_rainfall_reasons rain"
  by (auto simp add: assessDengueRisk_scoring_def spec_temperature_reasons_def
      spec_humidity_reasons_def spec_rainfall_reasons_def Let_def)

lemma assessDengueRisk_reasoning:
  "reasoning (assessDengueRisk fmt temp hum rain) =
     reasons (assessDengueRisk_scoring fmt temp hum rain) @
     spec_pattern_reasons (risk (assessDengueRisk fmt temp hum rain))"
  by (simp add: assessDengueRisk_def spec_pattern_reasons_def Let_def)

text \<open>
  C4. For every temperature in [25,30], every humidity of at least 70 and every rainfall
  above 100, the scorer returns the level Critical, and the summed score is at least 7.
\<close>

theorem assessDengueRisk_optimal_is_critical:
  assumes "num_ge temp (Fin 25)" and "num_le temp (Fin 30)"
    and "num_ge hum (Fin 70)" and "num_gt rain (Fin 100)"
  shows "risk (assessDengueRisk fmt temp hum rain) = Critical \<and>
         riskScore (assessDengueRisk_scoring fmt temp hum rain) \<ge> 7"
  using assms by (simp add: assessDengueRisk_def assessDengueRisk_scoring_def Let_def)

theorem assessDengueRisk_optimal_is_critical_witness:
  "risk (assessDengueRisk (\<lambda>n. ''80'') (Fin 28) (Fin 80) (Fin 120)) = Critical \<and>
   riskScore (assessDengueRisk_scoring (\<lambda>n. ''80'') (Fin 28) (Fin 80) (Fin 120)) \<ge> 7"
proof -
  have t1: "num_ge (Fin 28) (Fin 25)" and t2: "num_le (Fin 28) (Fin 30)"
    and h: "num_ge (Fin 80) (Fin 70)" and r: "num_gt (Fin 120) (Fin 100)"
    by (simp_all add: num_ge_def num_gt_def)
  show ?thesis
    by (rule assessDengueRisk_optimal_is_critical [OF t1 t2 h r])
qed

lemma scoring_score:
  "riskScore (assessDengueRisk_scoring fmt temp hum rain) = spec_score temp hum rain"
  by (auto simp add: assessDengueRisk_scoring_def spec_score_def spec_temperature_points_def
      spec_humidity_points_def spec_rainfall_points_def Let_def num_ge_def
      elim: num_le.elims)

lemma assessDengueRisk_level:
  "risk (assessDengueRisk fmt temp hum rain) = spec_level (spec_score temp hum rain)"
  by (simp add: assessDengueRisk_def spec_level_def Let_def scoring_score)

text \<open>
  C9 (as amended). For every numeric input (NaN and the infinities included), the reasons
  returned by the scorer are exactly: the temperature rule's reason, then the humidity
  rule's, then the rainfall rule's, each present exactly when its rule contributes, and
  then, when the summed score makes the level Critical or High, the pattern reason of
  that level. The sequence is a function of the three inputs and of the engine's number
  formatting alone, so equal inputs give equal sequences.
\<close>

theorem assessDengueRisk_reasons_exact:
  "reasoning (assessDengueRisk fmt temp hum rain) =
     spec_temperature_reasons temp @ spec_humidity_reasons fmt hum @
     spec_rainfall_reasons rain @ spec_pattern_reasons (spec_level (spec_score temp hum rain)) \<and>
   risk (assessDengueRisk fmt temp hum rain) = spec_level (spec_score temp hum rain)"
  by (simp add: assessDengueRisk_reasoning scoring_reasons assessDengueRisk_level)

text \<open>
  C9, as stated, fails: the sequence does not consist of the reasons of the temperature,
  humidity and rainfall rules alone. At temperature 28, humidity 80 and rainfall 120 it
  has a fourth string, the pattern reason of the level Critical.
\<close>

theorem assessDengueRisk_reasons_with_pattern_reason:
  "reasoning (assessDengueRisk (\<lambda>n. ''80'') (Fin 28) (Fin 80) (Fin 120)) =
     [reason_temp_optimal, reason_humidity_high ''80'', reason_rain_heavy,
      reason_pattern_critical] \<and>
   spec_temperature_reasons (Fin 28) @ spec_humidity_reasons (\<lambda>n. ''80'') (Fin 80) @
     spec_rainfall_reasons (Fin 120) =
     [reason_temp_optimal, reason_humidity_high ''80'', reason_rain_heavy] \<and>
   reasoning (assessDengueRisk (\<lambda>n. ''80'') (Fin 28) (Fin 80) (Fin 120)) \<noteq>
     spec_temperature_reasons (Fin 28) @ spec_humidity_reasons (\<lambda>n. ''80'') (Fin 80) @
     spec_rainfall_reasons (Fin 120)"
  by (simp add: assessDengueRisk_def assessDengueRisk_scoring_def Let_def
      spec_temperature_reasons_def spec_humidity_reasons_def spec_rainfall_reasons_def
      num_ge_def num_gt_def)

section \<open>Properties of the category normalizer\<close>

lemma startsWith_iff: "startsWith s p \<longleftrightarrow> (\<exists>suf. s = p @ suf)"
  by (induction s p rule: startsWith.induct) auto

lemma str_includes_iff: "str_includes s p \<longleftrightarrow> (\<exists>pre suf. s = pre @ p @ suf)"
proof (induction s)
  case Nil
  then show ?case by auto
next
  case (Cons c cs)
  show ?case
  proof
    assume "str_includes (c # cs) p"
    then consider "startsWith (c # cs) p" | "str_includes cs p" by auto
    then show "\<exists>pre suf. c # cs = pre @ p @ suf"
    proof cases
      case 1
      then obtain suf where "c # cs = p @ suf" by (auto simp: startsWith_iff)
      then have "c # cs = [] @ p @ suf" by simp
      then show ?thesis by blast
    next
      case 2
      then obtain pre suf where "cs = pre @ p @ suf" using Cons.IH by auto
      then have "c # cs = (c # pre) @ p @ suf" by simp
      then show ?thesis by blast
    qed
  next
    assume "\<exists>pre suf. c # cs = pre @ p @ suf"
    then obtain pre suf where eq: "c # cs = pre @ p @ suf" by auto
    show "str_includes (c # cs) p"
    proof (cases pre)
      case Nil
      with eq have "startsWith (c # cs) p" by (auto simp: startsWith_iff)
      then show ?thesis by simp
    next
      case (Cons a pre')
      with eq have "cs = pre' @ p @ suf" by simp
      then have "str_includes cs p" using Cons.IH by auto
      then show ?thesis by simp
    qed
  qed
qed

lemma str_includes_suffix_of_pattern: "str_includes s (p @ q) \<Longrightarrow> str_includes s q"
proof -
  assume "str_includes s (p @ q)"
  then obtain pre suf where "s = pre @ (p @ q) @ suf" by (auto simp: str_includes_iff)
  then have "s = (pre @ p) @ q @ suf" by simp
  then show "str_includes s q" unfolding str_includes_iff by blast
qed

lemma not_breeding_branch_unreachable:
  "str_includes (toLowerCase rt c) ''not_breeding'' \<Longrightarrow>
   mapBackendCategoryToFrontend rt c = Hotspot"
proof -
  assume "str_includes (toLowerCase rt c) ''not_breeding''"
  then have "str_includes (toLowerCase rt c) (''not_'' @ ''breeding'')" by simp
  then have "str_includes (toLowerCase rt c) ''breeding''"
    by (rule str_includes_suffix_of_pattern)
  then show ?thesis by (simp add: mapBackendCategoryToFrontend_def)
qed

lemma toLowerCase_not_breeding:
  "toLowerCase sample_runtime ''not_breeding'' = ''not_breeding''"
  by (simp add: sample_runtime_def ascii_toLowerCase_def ascii_toLowerChar_def)

text \<open>
  C5. The reference mapping sends a category containing \<^verbatim>\<open>not_breeding\<close> to
  \<^verbatim>\<open>Not Hotspot\<close>. The function tests \<^verbatim>\<open>breeding\<close> first, so the backend
  category \<^verbatim>\<open>not_breeding\<close> is mapped to \<^verbatim>\<open>Hotspot\<close>.
\<close>

theorem not_breeding_maps_to_Hotspot:
  "mapBackendCategoryToFrontend sample_runtime ''not_breeding'' = Hotspot"
  by (simp add: mapBackendCategoryToFrontend_def toLowerCase_not_breeding)

section \<open>Properties of the simulated prediction\<close>

subsection \<open>Evaluating the arithmetic\<close>

lemma bit_length_0: "bit_length 0 = 0"
  by (subst bit_length.simps) simp

lemma bit_length_1: "bit_length 1 = 1" "bit_length (Suc 0) = 1"
  by (subst bit_length.simps, simp add: bit_length_0)+

lemma bit_length_Bit0: "bit_length (numeral (Num.Bit0 n)) = Suc (bit_length (numeral n))"
  by (subst bit_length.simps) simp

lemma bit_length_Bit1: "bit_length (numeral (Num.Bit1 n)) = Suc (bit_length (numeral n))"
  by (subst bit_length.simps) simp

lemma floor_numeral_quot: "\<lfloor>numeral a / numeral b :: rat\<rfloor> = numeral a div numeral b"
  using floor_divide_of_int_eq [of "numeral a" "numeral b", where ?'a = rat] by simp

lemma ceiling_numeral_quot:
  "\<lceil>numeral a / numeral b :: rat\<rceil> = - ((- numeral a) div numeral b)"
  using floor_divide_of_int_eq [of "- numeral a" "numeral b", where ?'a = rat]
  by (simp add: ceiling_def)

lemmas fl64_eval = fl64_def floor_log2_def two_pow_def round_half_even_def Let_def
  bit_length_0 bit_length_1 bit_length_Bit0 bit_length_Bit1
  floor_numeral_quot ceiling_numeral_quot

lemma dec_0_8: "dec (4 / 5) = Fin (7205759403792794 / 9007199254740992)"
  by (simp add: dec_def fl64_eval)

lemma dec_0_9: "dec (9 / 10) = Fin (8106479329266893 / 9007199254740992)"
  by (simp add: dec_def fl64_eval)

lemma dec_0_7: "dec (7 / 10) = Fin (3152519739159347 / 4503599627370496)"
  by (simp add: dec_def fl64_eval)

lemma dec_0_6: "dec (3 / 5) = Fin (5404319552844595 / 9007199254740992)"
  by (simp add: dec_def fl64_eval)

lemma dec_0_4: "dec (2 / 5) = Fin (3602879701896397 / 9007199254740992)"
  by (simp add: dec_def fl64_eval)

lemma dec_0_5: "dec (1 / 2) = Fin (1 / 2)"
  by (simp add: dec_def fl64_eval)

lemma dec_0_75: "dec (3 / 4) = Fin (3 / 4)"
  by (simp add: dec_def fl64_eval)

lemma dec_0_85: "dec (17 / 20) = Fin (7656119366529843 / 9007199254740992)"
  by (simp add: dec_def fl64_eval)

subsection \<open>The rounding is to a nearest double\<close>

lemma bit_length_bounds:
  "0 < n \<Longrightarrow> 2 ^ (bit_length n - 1) \<le> n \<and> n < 2 ^ bit_length n"
proof (induction n rule: bit_length.induct)
  case (1 n)
  show ?case
  proof (cases "n div 2 = 0")
    case True
    with "1.prems" have n1: "n = 1" by (simp add: div_eq_0_iff)
    have "bit_length 1 = 1" by (simp add: bit_length_1)
    with n1 show ?thesis by simp
  next
    case False
    then have pos: "0 < n div 2" by simp
    from "1.prems" have nz: "n \<noteq> 0" by simp
    from "1.IH" [OF nz pos]
    have lo: "2 ^ (bit_length (n div 2) - 1) \<le> n div 2"
      and hi: "n div 2 < 2 ^ bit_length (n div 2)" by simp_all
    have bl: "bit_length n = Suc (bit_length (n div 2))"
      using nz by (subst bit_length.simps) simp
    have k: "bit_length (n div 2) \<ge> 1"
      using pos by (subst bit_length.simps) simp
    then obtain j where j: "bit_length (n div 2) = Suc j" by (cases "bit_length (n div 2)") auto
    from lo j have "2 * 2 ^ j \<le> 2 * (n div 2)" by simp
    then have l: "(2::nat) ^ Suc j \<le> n" by simp
    from hi j have "Suc (n div 2) \<le> 2 ^ Suc j" by simp
    then have "2 * Suc (n div 2) \<le> 2 * 2 ^ Suc j" by simp
    then have h: "n < 2 * 2 ^ Suc j" by arith
    from l h show ?thesis by (simp add: bl j)
  qed
qed


lemma pow2_le_of_nat: "2 ^ k \<le> n \<Longrightarrow> (2 :: rat) ^ k \<le> of_nat n"
proof -
  assume "2 ^ k \<le> n"
  then have "(of_nat (2 ^ k) :: rat) \<le> of_nat n" by (simp only: of_nat_le_iff)
  then show ?thesis by simp
qed

lemma of_nat_less_pow2: "n < 2 ^ k \<Longrightarrow> (of_nat n :: rat) + 1 \<le> 2 ^ k"
proof -
  assume "n < 2 ^ k"
  then have "Suc n \<le> 2 ^ k" by simp
  then have "(of_nat (Suc n) :: rat) \<le> of_nat (2 ^ k)" by (simp only: of_nat_le_iff)
  then show ?thesis by simp
qed

lemma floor_log2_bounds:
  assumes "0 < x"
  shows "two_pow (floor_log2 x) \<le> x \<and> x < two_pow (floor_log2 x + 1)"
proof (cases "1 \<le> x")
  case True
  define n where "n = nat \<lfloor>x\<rfloor>"
  from True have fl: "1 \<le> \<lfloor>x\<rfloor>" by simp
  then have npos: "0 < n" by (simp add: n_def)
  from fl have nx: "of_nat n \<le> x" and xn: "x < of_nat n + 1"
    using floor_correct [of x] by (simp_all add: n_def)
  from bit_length_bounds [OF npos]
  have lo: "2 ^ (bit_length n - 1) \<le> n" and hi: "n < 2 ^ bit_length n" by simp_all
  from hi have blpos: "0 < bit_length n" using npos by (cases "bit_length n") auto
  have e: "floor_log2 x = int (bit_length n) - 1"
    using True by (simp add: floor_log2_def n_def)
  have p1: "two_pow (floor_log2 x) = 2 ^ (bit_length n - 1)"
    using blpos by (simp add: e two_pow_def nat_diff_distrib)
  have p2: "two_pow (floor_log2 x + 1) = 2 ^ bit_length n"
    by (simp add: e two_pow_def)
  from pow2_le_of_nat [OF lo] nx have a: "(2 :: rat) ^ (bit_length n - 1) \<le> x"
    by (rule order_trans)
  from xn of_nat_less_pow2 [OF hi] have b: "x < (2 :: rat) ^ bit_length n"
    by (rule less_le_trans)
  from a b show ?thesis by (simp add: p1 p2)
next
  case False
  define y where "y = 1 / x"
  define m where "m = nat (\<lceil>y\<rceil> - 1)"
  from False assms have y1: "1 < y" by (simp add: y_def)
  then have c2: "2 \<le> \<lceil>y\<rceil>" by (simp add: le_ceiling_iff)
  then have mpos: "0 < m" by (simp add: m_def)
  have my: "of_nat m < y" and ym: "y \<le> of_nat m + 1"
    using c2 ceiling_correct [of y] by (simp_all add: m_def)
  from bit_length_bounds [OF mpos]
  have lo: "2 ^ (bit_length m - 1) \<le> m" and hi: "m < 2 ^ bit_length m" by simp_all
  from hi have blpos: "0 < bit_length m" using mpos by (cases "bit_length m") auto
  have e: "floor_log2 x = - int (bit_length m)"
    using False by (simp add: floor_log2_def m_def y_def)
  have p1: "two_pow (floor_log2 x) = 1 / 2 ^ bit_length m"
    using blpos by (simp add: e two_pow_def)
  have p2: "two_pow (floor_log2 x + 1) = 1 / 2 ^ (bit_length m - 1)"
  proof (cases "bit_length m = 1")
    case True
    then show ?thesis by (simp add: e two_pow_def)
  next
    case False
    with blpos have "2 \<le> bit_length m" by simp
    then have "nat (int (bit_length m) - 1) = bit_length m - 1" by simp
    with \<open>2 \<le> bit_length m\<close> show ?thesis by (simp add: e two_pow_def)
  qed
  from pow2_le_of_nat [OF lo] my have a: "(2 :: rat) ^ (bit_length m - 1) < y"
    by (rule le_less_trans)
  from ym of_nat_less_pow2 [OF hi] have b: "y \<le> (2 :: rat) ^ bit_length m"
    by (rule order_trans)
  from b assms have "1 / 2 ^ bit_length m \<le> x"
    by (simp add: y_def field_simps)
  moreover from a assms have "x < 1 / 2 ^ (bit_length m - 1)"
    by (simp add: y_def field_simps)
  ultimately show ?thesis by (simp add: p1 p2)
qed


lemma two_pow_pos: "0 < two_pow e"
  by (simp add: two_pow_def)

lemma round_half_even_error: "\<bar>of_int (round_half_even m) - m\<bar> \<le> 1 / 2"
proof -
  define f where "f = \<lfloor>m\<rfloor>"
  define d where "d = m - of_int f"
  have f1: "of_int f \<le> m" and f2: "m < of_int f + 1"
    using floor_correct [of m] by (simp_all add: f_def)
  have r: "round_half_even m =
      (if d < 1 / 2 then f else if d > 1 / 2 then f + 1 else if even f then f else f + 1)"
    by (simp add: round_half_even_def Let_def f_def d_def)
  consider "d < 1 / 2" | "d > 1 / 2" | "d = 1 / 2" by linarith
  then show ?thesis
  proof cases
    case 1
    then have "round_half_even m = f" by (simp add: r)
    moreover have "\<bar>of_int f - m\<bar> \<le> 1 / 2" using 1 f1 unfolding d_def by linarith
    ultimately show ?thesis by simp
  next
    case 2
    then have "round_half_even m = f + 1" by (simp add: r)
    moreover have "\<bar>of_int (f + 1) - m\<bar> \<le> 1 / 2"
      using 2 f2 unfolding d_def by simp
    ultimately show ?thesis by simp
  next
    case 3
    then have "round_half_even m = f \<or> round_half_even m = f + 1" by (simp add: r)
    moreover have "\<bar>of_int f - m\<bar> \<le> 1 / 2" using 3 unfolding d_def by linarith
    moreover have "\<bar>of_int (f + 1) - m\<bar> \<le> 1 / 2"
      using 3 unfolding d_def by simp
    ultimately show ?thesis by auto
  qed
qed

text \<open>
  A finite result of the rounding is a multiple of the unit in the last place and lies
  within half a unit of the exact value.
\<close>

lemma fl64_nearest:
  assumes "fl64 x = Fin v" and "x \<noteq> 0"
  shows "\<exists>k. v = of_int k * two_pow (max (floor_log2 \<bar>x\<bar>) (- 1022) - 52) \<and>
             \<bar>v - x\<bar> \<le> two_pow (max (floor_log2 \<bar>x\<bar>) (- 1022) - 52) / 2"
proof -
  define u where "u = two_pow (max (floor_log2 \<bar>x\<bar>) (- 1022) - 52)"
  define k where "k = round_half_even (x / u)"
  have upos: "0 < u" by (simp add: u_def two_pow_pos)
  from assms have v: "v = of_int k * u"
    by (simp add: fl64_def Let_def u_def k_def split: if_splits)
  have "\<bar>of_int k - x / u\<bar> \<le> 1 / 2" unfolding k_def by (rule round_half_even_error)
  then have "\<bar>of_int k - x / u\<bar> * u \<le> 1 / 2 * u"
    using upos by (simp only: mult_le_cancel_right_pos)
  moreover have "\<bar>of_int k - x / u\<bar> * u = \<bar>of_int k * u - x\<bar>"
  proof -
    have "\<bar>of_int k - x / u\<bar> * u = \<bar>of_int k - x / u\<bar> * \<bar>u\<bar>" using upos by simp
    also have "\<dots> = \<bar>(of_int k - x / u) * u\<bar>" by (simp only: abs_mult)
    also have "(of_int k - x / u) * u = of_int k * u - x"
      using upos by (simp add: field_simps)
    finally show ?thesis .
  qed
  ultimately have "\<bar>v - x\<bar> \<le> u / 2" by (simp add: v)
  with v show ?thesis unfolding u_def by blast
qed

subsection \<open>The example of the specification\<close>

lemma tempRisk_32: "tempRisk request_32_80_10 = dec (8 / 10)"
  by (simp add: tempRisk_def request_32_80_10_def opt_to_number_def num_gt_def)

lemma humidityRisk_80: "humidityRisk request_32_80_10 = dec (9 / 10)"
  by (simp add: humidityRisk_def request_32_80_10_def opt_to_number_def num_gt_def)

lemma rainfallRisk_10: "rainfallRisk request_32_80_10 = dec (7 / 10)"
  by (simp add: rainfallRisk_def request_32_80_10_def opt_to_number_def num_gt_def)

text \<open>The double average of 0.8, 0.9 and 0.7 is one unit in the last place above 0.8.\<close>

lemma avgRisk_32_80_10:
  "avgRisk request_32_80_10 = Fin (7205759403792795 / 9007199254740992)"
  by (simp add: avgRisk_def tempRisk_32 humidityRisk_80 rainfallRisk_10
      dec_0_8 dec_0_9 dec_0_7 fl64_eval)

lemma riskLevel_32_80_10: "riskLevel request_32_80_10 = ''Critical''"
  by (simp add: riskLevel_def avgRisk_32_80_10 dec_0_8 num_gt_def)

lemma predicted_cases_32_80_10:
  "num_floor (num_mul (avgRisk request_32_80_10) (Fin 150)) = Fin 120"
  by (simp add: avgRisk_32_80_10 fl64_eval)

text \<open>
  C3 (as amended). For the request with temperature 32, humidity 80 and rainfall 10 the
  simulated prediction has the impacts 0.8, 0.9 and 0.7; its probability is their average
  in double arithmetic, 7205759403792795 / 2^53 = 0.8000000000000002, which is above the
  double 0.8; so the level is Critical; and the predicted cases are 120.
\<close>

theorem simulated_32_80_10_fields:
  "path (getSimulatedPrediction now request_32_80_10)
     [''environmental_factors'', ''temperature_impact''] = Num (dec (8 / 10)) \<and>
   path (getSimulatedPrediction now request_32_80_10)
     [''environmental_factors'', ''humidity_impact''] = Num (dec (9 / 10)) \<and>
   path (getSimulatedPrediction now request_32_80_10)
     [''environmental_factors'', ''rainfall_impact''] = Num (dec (7 / 10)) \<and>
   path (getSimulatedPrediction now request_32_80_10)
     [''prediction'', ''outbreak_probability''] =
       Num (Fin (7205759403792795 / 9007199254740992)) \<and>
   Fin (7205759403792795 / 9007199254740992) =
     num_div (num_add (num_add (dec (8 / 10)) (dec (9 / 10))) (dec (7 / 10))) (Fin 3) \<and>
   num_gt (Fin (7205759403792795 / 9007199254740992)) (dec (8 / 10)) \<and>
   path (getSimulatedPrediction now request_32_80_10)
     [''prediction'', ''risk_level''] = Str ''Critical'' \<and>
   path (getSimulatedPrediction now request_32_80_10)
     [''prediction'', ''predicted_cases''] = Num (Fin 120)"
proof -
  have avg: "num_div (num_add (num_add (dec (8 / 10)) (dec (9 / 10))) (dec (7 / 10))) (Fin 3) =
      Fin (7205759403792795 / 9007199254740992)"
    using avgRisk_32_80_10
    by (simp only: avgRisk_def tempRisk_32 humidityRisk_80 rainfallRisk_10)
  have gt: "num_gt (Fin (7205759403792795 / 9007199254740992)) (dec (8 / 10))"
    by (simp add: dec_0_8 num_gt_def)
  have "getSimulatedPrediction now request_32_80_10 = Obj
    [(''status'', Str ''success (simulated)''),
     (''prediction'', Obj
       [(''outbreak_probability'', Num (Fin (7205759403792795 / 9007199254740992))),
        (''risk_level'', Str ''Critical''),
        (''predicted_cases'', Num (Fin 120)),
        (''confidence'', Num (dec (75 / 100)))]),
     (''environmental_factors'', Obj
       [(''temperature_impact'', Num (dec (8 / 10))),
        (''humidity_impact'', Num (dec (9 / 10))),
        (''rainfall_impact'', Num (dec (7 / 10))),
        (''population_density_impact'', Num (dec (6 / 10)))]),
     (''recommendations'', recommendations_simulated),
     (''real_ai_analysis'', Obj
       [(''model_used'', Str ''RandomForest''),
        (''feature_importance'', Obj
          [(''temperature'', Num (dec (8 / 10))),
           (''humidity'', Num (dec (9 / 10))),
           (''rainfall'', Num (dec (7 / 10)))]),
        (''accuracy_score'', Num (dec (75 / 100))),
        (''data_source'', Str ''Malaysian_Real_Data'')]),
     (''quantum_insights'', Obj
       [(''optimal_response_strategy'', Str ''Standard prevention with monitoring''),
        (''resource_allocation'', Obj
          [(''prevention_priority'', Str ''Critical''),
           (''monitoring_intensity'', Str ''Standard'')])]),
     (''weather_data'', Obj
       [(''temperature'', Num (Fin 32)),
        (''humidity'', Num (Fin 80)),
        (''rainfall'', Num (Fin 10)),
        (''simulated'', Bool True)]),
     (''timestamp'', Str now)]"
    unfolding getSimulatedPrediction_def predicted_cases_32_80_10 riskLevel_32_80_10
    unfolding avgRisk_32_80_10 tempRisk_32 humidityRisk_80 rainfallRisk_10
    by (simp add: request_32_80_10_def opt_num_def)
  then show ?thesis using avg gt by simp
qed

text \<open>
  C3, as stated, fails in one point: the probability returned is not 0.8, neither the
  double nearest to it nor the exact fraction.
\<close>

theorem simulated_32_80_10_probability_not_0_8:
  "path (getSimulatedPrediction sample_now request_32_80_10)
     [''prediction'', ''outbreak_probability''] \<noteq> Num (dec (8 / 10)) \<and>
   path (getSimulatedPrediction sample_now request_32_80_10)
     [''prediction'', ''outbreak_probability''] \<noteq> Num (Fin (8 / 10))"
  by (simp add: getSimulatedPrediction_def avgRisk_32_80_10 dec_0_8)

section \<open>Properties of the prediction client\<close>

lemma truthy_not_nullish: "truthy v \<Longrightarrow> v \<noteq> Undefined \<and> v \<noteq> Null"
  by (cases v) auto

lemma js_or_truthy: "truthy b \<Longrightarrow> truthy (js_or a b)"
  by (simp add: js_or_def)

lemma js_or_not_nullish: "truthy b \<Longrightarrow> js_or a b \<noteq> Undefined \<and> js_or a b \<noteq> Null"
  by (rule truthy_not_nullish) (rule js_or_truthy)

lemma truthy_recommendations_default: "truthy recommendations_default"
  by (simp add: recommendations_default_def)

lemma fully_populated_simulated: "fully_populated (getSimulatedPrediction now data)"
  by (simp add: fully_populated_def prediction_result_paths_def getSimulatedPrediction_def
      recommendations_simulated_def)

lemma and_then_Inr: "and_then m f = Inr y \<longleftrightarrow> (\<exists>x. m = Inr x \<and> f x = Inr y)"
  by (cases m) (simp_all add: and_then_def)

lemma fully_populated_transformed:
  assumes "transformPrediction rt now result = Inr r"
  shows "fully_populated r"
  using assms unfolding transformPrediction_def Let_def and_then_Inr
  by (auto simp add: fully_populated_def prediction_result_paths_def
      js_or_not_nullish dec_0_85 truthy_recommendations_default)

lemma predictOutbreak_cases:
  "snd (predictOutbreak rt baseUrl backend now data) = Inr (getSimulatedPrediction now data) \<or>
   (\<exists>result r. transformPrediction rt now result = Inr r \<and>
      snd (predictOutbreak rt baseUrl backend now data) = Inr r)"
  by (auto simp add: predictOutbreak_def predictOutbreak_try_def Let_def
      split: fetch_result.splits sum.splits if_splits)

text \<open>
  C1 (as amended). For every prediction request and every behaviour of the backend (a
  transport error, a health probe that is not OK, a prediction response that is not OK,
  an error field in a 200 payload, or anything else), \<^verbatim>\<open>predictOutbreak\<close> of the
  live-weather client resolves with a fully populated prediction result and never raises
  to the caller.
\<close>

theorem predictOutbreak_always_resolves:
  "\<exists>r. snd (predictOutbreak rt baseUrl backend now data) = Inr r \<and> fully_populated r"
  using predictOutbreak_cases [of rt baseUrl backend now data]
  by (auto simp add: fully_populated_simulated fully_populated_transformed)

lemma predictOutbreak_transport_error:
  "backend (health_request baseUrl) = NetworkError e \<Longrightarrow>
   predictOutbreak rt baseUrl backend now data =
     ([health_request baseUrl], Inr (getSimulatedPrediction now data))"
  by (simp add: predictOutbreak_def predictOutbreak_try_def Let_def)

lemma predictOutbreak_probe_not_ok:
  "backend (health_request baseUrl) = Response h \<Longrightarrow> \<not> ok h \<Longrightarrow>
   predictOutbreak rt baseUrl backend now data =
     ([health_request baseUrl], Inr (getSimulatedPrediction now data))"
  by (simp add: predictOutbreak_def predictOutbreak_try_def Let_def)

lemma predictOutbreak_prediction_transport_error:
  "backend (health_request baseUrl) = Response h \<Longrightarrow> ok h \<Longrightarrow>
   backend (live_weather_request baseUrl data) = NetworkError e \<Longrightarrow>
   predictOutbreak rt baseUrl backend now data =
     ([health_request baseUrl, live_weather_request baseUrl data],
      Inr (getSimulatedPrediction now data))"
  by (simp add: predictOutbreak_def predictOutbreak_try_def Let_def)

lemma predictOutbreak_prediction_not_ok:
  "backend (health_request baseUrl) = Response h \<Longrightarrow> ok h \<Longrightarrow>
   backend (live_weather_request baseUrl data) = Response resp \<Longrightarrow> \<not> ok resp \<Longrightarrow>
   predictOutbreak rt baseUrl backend now data =
     ([health_request baseUrl, live_weather_request baseUrl data],
      Inr (getSimulatedPrediction now data))"
  by (simp add: predictOutbreak_def predictOutbreak_try_def Let_def)

lemma predictOutbreak_body_not_json:
  "backend (health_request baseUrl) = Response h \<Longrightarrow> ok h \<Longrightarrow>
   backend (live_weather_request baseUrl data) = Response resp \<Longrightarrow> ok resp \<Longrightarrow>
   json resp = Inl e \<Longrightarrow>
   predictOutbreak rt baseUrl backend now data =
     ([health_request baseUrl, live_weather_request baseUrl data],
      Inr (getSimulatedPrediction now data))"
  by (simp add: predictOutbreak_def predictOutbreak_try_def Let_def)

lemma predictOutbreak_error_field:
  "backend (health_request baseUrl) = Response h \<Longrightarrow> ok h \<Longrightarrow>
   backend (live_weather_request baseUrl data) = Response resp \<Longrightarrow> ok resp \<Longrightarrow>
   json resp = Inr result \<Longrightarrow> truthy (read_prop result ''error'') \<Longrightarrow>
   predictOutbreak rt baseUrl backend now data =
     ([health_request baseUrl, live_weather_request baseUrl data],
      Inr (getSimulatedPrediction now data))"
  by (auto simp add: predictOutbreak_def predictOutbreak_try_def Let_def get_def)

lemma predictOutbreak_success:
  "backend (health_request baseUrl) = Response h \<Longrightarrow> ok h \<Longrightarrow>
   backend (live_weather_request baseUrl data) = Response resp \<Longrightarrow> ok resp \<Longrightarrow>
   json resp = Inr result \<Longrightarrow> result \<noteq> Null \<Longrightarrow> result \<noteq> Undefined \<Longrightarrow>
   \<not> truthy (read_prop result ''error'') \<Longrightarrow>
   transformPrediction rt now result = Inr r \<Longrightarrow>
   predictOutbreak rt baseUrl backend now data =
     ([health_request baseUrl, live_weather_request baseUrl data], Inr r)"
  by (simp add: predictOutbreak_def predictOutbreak_try_def Let_def get_def)

lemma predictOutbreak_transformation_raises:
  "backend (health_request baseUrl) = Response h \<Longrightarrow> ok h \<Longrightarrow>
   backend (live_weather_request baseUrl data) = Response resp \<Longrightarrow> ok resp \<Longrightarrow>
   json resp = Inr result \<Longrightarrow> result \<noteq> Null \<Longrightarrow> result \<noteq> Undefined \<Longrightarrow>
   \<not> truthy (read_prop result ''error'') \<Longrightarrow>
   transformPrediction rt now result = Inl e \<Longrightarrow>
   predictOutbreak rt baseUrl backend now data =
     ([health_request baseUrl, live_weather_request baseUrl data],
      Inr (getSimulatedPrediction now data))"
  by (simp add: predictOutbreak_def predictOutbreak_try_def Let_def get_def)

text \<open>
  With a backend that cannot be reached, the request of the example gets its simulated
  prediction.
\<close>

lemma predictOutbreak_example_when_unreachable:
  "snd (predictOutbreak rt baseUrl backend_down now request_32_80_10) =
     Inr (getSimulatedPrediction now request_32_80_10)"
  by (simp add: predictOutbreak_transport_error [where e = "JsError ''Failed to fetch''"]
      backend_down_def)

text \<open>
  The second client of the file: its \<^verbatim>\<open>predictOutbreak\<close> raises when the probe
  does not respond OK, and returns the payload of any OK response with a JSON body.
\<close>

lemma predictOutbreak2_rejects_when_probe_fails:
  assumes "\<not> responds_ok (backend
      \<lparr>url = baseUrl @ ''/health'', http_method = ''GET'', headers = [], body = NoBody\<rparr>)"
  shows "snd (predictOutbreak2 rt baseUrl backend data) =
           Inl (JsError ''AI service is currently unavailable. Please try again later.'')"
  using assms
  by (auto simp add: predictOutbreak2_def predictOutbreak2_try_def healthCheck2_def Let_def
      responds_ok_def split: fetch_result.splits)

lemma predictOutbreak2_resolves_on_ok_json:
  assumes "backend
      \<lparr>url = baseUrl @ ''/health'', http_method = ''GET'', headers = [], body = NoBody\<rparr> =
      Response h" and "ok h"
    and "backend (predict_request2 baseUrl data) = Response resp" and "ok resp"
    and "json resp = Inr result"
  shows "snd (predictOutbreak2 rt baseUrl backend data) = Inr result"
  using assms
  by (simp add: predictOutbreak2_def predictOutbreak2_try_def healthCheck2_def Let_def)

text \<open>
  C1, as stated, fails on the second client of the file: when the backend cannot be
  reached its \<^verbatim>\<open>predictOutbreak\<close> raises an error.
\<close>

theorem predictOutbreak2_rejects_when_unreachable:
  "snd (predictOutbreak2 sample_runtime API_BASE_URL backend_down request_32_80_10) =
     Inl (JsError ''AI service is currently unavailable. Please try again later.'')"
  by (simp add: predictOutbreak2_def predictOutbreak2_try_def healthCheck2_def backend_down_def
      Let_def)

text \<open>
  C2. Whenever the health probe does not respond OK (the request fails, or the response
  is not OK), \<^verbatim>\<open>predictOutbreak\<close> returns the simulated prediction, and the only
  request it issues is the probe: the prediction request is never sent.
\<close>

theorem predictOutbreak_health_not_ok:
  assumes "\<not> responds_ok (backend (health_request baseUrl))"
  shows "predictOutbreak rt baseUrl backend now data =
           ([health_request baseUrl], Inr (getSimulatedPrediction now data)) \<and>
         live_weather_request baseUrl data \<notin> set (fst (predictOutbreak rt baseUrl backend now data)) \<and>
         list_all (\<lambda>q. url q \<noteq> baseUrl @ ''/predict/live-weather'')
           (fst (predictOutbreak rt baseUrl backend now data)) \<and>
         path (getSimulatedPrediction now data) [''status''] = Str ''success (simulated)''"
proof -
  have res: "predictOutbreak rt baseUrl backend now data =
      ([health_request baseUrl], Inr (getSimulatedPrediction now data))"
  proof (cases "backend (health_request baseUrl)")
    case (NetworkError e)
    then show ?thesis by (rule predictOutbreak_transport_error)
  next
    case (Response h)
    with assms have "\<not> ok h" by (simp add: responds_ok_def)
    with Response show ?thesis by (rule predictOutbreak_probe_not_ok)
  qed
  have diff: "health_request baseUrl \<noteq> live_weather_request baseUrl data"
    by (simp add: health_request_def live_weather_request_def)
  have u: "url (health_request baseUrl) \<noteq> baseUrl @ ''/predict/live-weather''"
    by (simp add: health_request_def)
  show ?thesis using res diff u by (simp add: getSimulatedPrediction_def)
qed

theorem predictOutbreak_health_not_ok_witness:
  "\<not> responds_ok (backend_down (health_request API_BASE_URL)) \<and>
   predictOutbreak sample_runtime API_BASE_URL backend_down sample_now request_32_80_10 =
     ([health_request API_BASE_URL], Inr (getSimulatedPrediction sample_now request_32_80_10))"
proof -
  have h: "\<not> responds_ok (backend_down (health_request API_BASE_URL))"
    by (simp add: responds_ok_def backend_down_def)
  from predictOutbreak_health_not_ok
    [where backend = backend_down and baseUrl = API_BASE_URL and rt = sample_runtime
      and now = sample_now and data = request_32_80_10, OF h]
  show ?thesis using h by blast
qed

section \<open>Properties of the weather gateway cache\<close>

lemma getWeatherStackData_hit:
  "c (''weatherstack_'' @ location_or_default a) = Some entry \<Longrightarrow>
   t - entry_timestamp entry < cacheTimeout \<Longrightarrow>
   getWeatherStackData encode backend t t' c a = ([], c, entry_data entry)"
  by (simp add: getWeatherStackData_def Let_def)

lemma getWeatherStackData_requests:
  "fst (getWeatherStackData encode backend t t' c a) = [] \<or>
   fst (getWeatherStackData encode backend t t' c a) =
     [weatherstack_request encode (location_or_default a)]"
  by (auto simp add: getWeatherStackData_def getWeatherStackData_fetch_def Let_def
      split: option.splits fetch_result.splits sum.splits)

lemma getWeatherStackData_fetched:
  assumes "getWeatherStackData encode backend t1 t2 c0 a = (reqs, c1, d1)"
    and "reqs \<noteq> []"
    and "backend (weatherstack_request encode (location_or_default a)) = Response resp"
    and "ok resp" and "json resp = Inr d"
  shows "d1 = d \<and>
         c1 (''weatherstack_'' @ location_or_default a) =
           Some \<lparr>entry_data = d, entry_timestamp = t2\<rparr>"
  using assms
  by (auto simp add: getWeatherStackData_def getWeatherStackData_fetch_def Let_def
      split: option.splits if_splits)

text \<open>
  C6. For every location: if a call fetches the weather and the fetch succeeds (an OK
  response with a JSON body, which is stored with the time \<open>t2\<close>), then a call for the same
  location at a time \<open>t3\<close> less than ten minutes after \<open>t2\<close> returns the same data, issues
  no request, whatever the backend would answer, and leaves the cache as it is.
\<close>

theorem getWeatherStackData_cached_within_ttl:
  assumes "getWeatherStackData encode backend t1 t2 c0 a = (reqs, c1, d1)"
    and "reqs \<noteq> []"
    and "backend (weatherstack_request encode (location_or_default a)) = Response resp"
    and "ok resp" and "json resp = Inr d"
    and "t3 - t2 < cacheTimeout"
  shows "d1 = d \<and> getWeatherStackData encode backend' t3 t4 c1 a = ([], c1, d)"
proof -
  from getWeatherStackData_fetched [OF assms(1-5)]
  have d1: "d1 = d"
    and c1: "c1 (''weatherstack_'' @ location_or_default a) =
      Some \<lparr>entry_data = d, entry_timestamp = t2\<rparr>"
    by simp_all
  have "getWeatherStackData encode backend' t3 t4 c1 a =
      ([], c1, entry_data \<lparr>entry_data = d, entry_timestamp = t2\<rparr>)"
    using c1 assms(6)
    by (intro getWeatherStackData_hit [where c = c1 and a = a]) simp_all
  with d1 show ?thesis by simp
qed

theorem getWeatherStackData_cached_within_ttl_witness:
  "getWeatherStackData (\<lambda>s. s) weather_backend 1000 1250 Map.empty (Some ''Shah Alam'') =
     ([weatherstack_request (\<lambda>s. s) ''Shah Alam''],
      Map.empty(''weatherstack_Shah Alam'' \<mapsto>
        \<lparr>entry_data = weather_payload, entry_timestamp = 1250\<rparr>),
      weather_payload) \<and>
   (601249 :: int) - 1250 < cacheTimeout \<and>
   getWeatherStackData (\<lambda>s. s) backend_down 601249 601300
     (Map.empty(''weatherstack_Shah Alam'' \<mapsto>
        \<lparr>entry_data = weather_payload, entry_timestamp = 1250\<rparr>))
     (Some ''Shah Alam'') =
     ([],
      Map.empty(''weatherstack_Shah Alam'' \<mapsto>
        \<lparr>entry_data = weather_payload, entry_timestamp = 1250\<rparr>),
      weather_payload)"
proof -
  let ?c1 = "Map.empty(''weatherstack_Shah Alam'' \<mapsto>
        \<lparr>entry_data = weather_payload, entry_timestamp = 1250\<rparr>)"
  have first: "getWeatherStackData (\<lambda>s. s) weather_backend 1000 1250 Map.empty
      (Some ''Shah Alam'') =
      ([weatherstack_request (\<lambda>s. s) ''Shah Alam''], ?c1, weather_payload)"
    by (simp add: getWeatherStackData_def getWeatherStackData_fetch_def Let_def
        location_or_default_def weather_backend_def backend_replying_def ok_def)
  have fetched: "[weatherstack_request (\<lambda>s. s) ''Shah Alam''] \<noteq> []" by simp
  have answer: "weather_backend
      (weatherstack_request (\<lambda>s. s) (location_or_default (Some ''Shah Alam''))) =
      Response \<lparr>status_code = 200, statusText = ''OK'', json = Inr weather_payload\<rparr>"
    by (simp add: weather_backend_def backend_replying_def)
  have isok: "ok \<lparr>status_code = 200, statusText = ''OK'', json = Inr weather_payload\<rparr>"
    by (simp add: ok_def)
  have body: "json \<lparr>status_code = 200, statusText = ''OK'', json = Inr weather_payload\<rparr> =
      Inr weather_payload"
    by simp
  have fresh: "(601249 :: int) - 1250 < cacheTimeout" by (simp add: cacheTimeout_def)
  from getWeatherStackData_cached_within_ttl
    [where backend' = backend_down and ?t4.0 = 601300,
      OF first fetched answer isok body fresh]
  show ?thesis using first fresh by simp
qed

section \<open>Properties of the normalizers\<close>

lemma transformPrediction_prediction_fields:
  assumes "transformPrediction rt now result = Inr r"
  shows "path r [''prediction'', ''confidence''] =
           js_or (read_prop (selectPrediction result) ''confidence'') (Num (dec (85 / 100)))"
    and "path r [''prediction'', ''predicted_cases''] =
           js_or (read_prop (selectPrediction result) ''predicted_cases'') (Num (Fin 85))"
    and "path r [''prediction'', ''risk_level''] =
           js_or (read_prop (selectPrediction result) ''risk_level'') (Str ''Medium'')"
    and "path r [''recommendations''] =
           js_or (read_prop result ''recommendations'') recommendations_default"
  using assms unfolding transformPrediction_def Let_def and_then_Inr by auto

lemma transformPrediction_numbers:
  assumes "transformPrediction rt now result = Inr r"
  shows "\<exists>p. js_div rt
             (js_or (js_or (read_prop (selectPrediction result) ''risk_score'')
                           (read_prop (selectPrediction result) ''confidence''))
                    (Num (dec (7 / 10))))
             (Fin 100) = Inr p \<and>
           path r [''prediction'', ''outbreak_probability''] = Num p"
    and "\<exists>t. (if truthy (selectWeatherData result)
               then js_div rt (read_prop (selectWeatherData result) ''temperature'') (Fin 40)
               else Inr (dec (75 / 100))) = Inr t \<and>
           path r [''environmental_factors'', ''temperature_impact''] = Num t"
    and "\<exists>h. (if truthy (selectWeatherData result)
               then js_div rt (read_prop (selectWeatherData result) ''humidity'') (Fin 100)
               else Inr (dec (8 / 10))) = Inr h \<and>
           path r [''environmental_factors'', ''humidity_impact''] = Num h"
    and "\<exists>f. rainfall_share rt (selectWeatherData result) = Inr f \<and>
           path r [''environmental_factors'', ''rainfall_impact''] = Num f"
  using assms unfolding transformPrediction_def Let_def and_then_Inr by auto

lemma reportResult_rewards:
  "path (reportResult rt now_iso now_ms result cat) [''gamification'', ''points_awarded''] =
     js_or (js_or (read_prop result ''points_earned'') (read_prop result ''points_awarded''))
           (Num (Fin 50))"
  "path (reportResult rt now_iso now_ms result cat) [''gamification'', ''xp_gained''] =
     js_or (js_or (read_prop result ''xp_earned'') (read_prop result ''xp_gained''))
           (Num (Fin 25))"
  by (simp_all add: reportResult_def)

lemma js_or_Undefined: "js_or Undefined b = b"
  by (simp add: js_or_def)

lemma js_or_zero: "js_or (Num (Fin 0)) b = b"
  by (simp add: js_or_def)

lemma js_or_not_zero: "truthy b \<Longrightarrow> js_or a b \<noteq> Num (Fin 0)"
  using js_or_truthy [of b a] by auto

text \<open>
  On an OK prediction response whose payload is an object
  without a truthy error field and whose transformation returns, the call returns the
  transformed payload, and a field the payload's prediction lacks is given its default:
  confidence 0.85, predicted cases 85, risk level Medium, the probability 0.7 / 100 when
  neither risk score nor confidence is there, the default recommendations, and the impacts
  0.75, 0.8 and 0.3 when the payload has no weather data at all.
\<close>

lemma predictOutbreak_defaults_missing_fields:
  assumes "backend (health_request baseUrl) = Response h" and "ok h"
    and "backend (live_weather_request baseUrl data) = Response resp" and "ok resp"
    and "json resp = Inr result" and "result \<noteq> Null" and "result \<noteq> Undefined"
    and "\<not> truthy (read_prop result ''error'')"
    and "transformPrediction rt now result = Inr r"
  shows "snd (predictOutbreak rt baseUrl backend now data) = Inr r \<and>
         fully_populated r \<and>
         (read_prop (selectPrediction result) ''confidence'' = Undefined \<longrightarrow>
            path r [''prediction'', ''confidence''] = Num (dec (85 / 100))) \<and>
         (read_prop (selectPrediction result) ''predicted_cases'' = Undefined \<longrightarrow>
            path r [''prediction'', ''predicted_cases''] = Num (Fin 85)) \<and>
         (read_prop (selectPrediction result) ''risk_level'' = Undefined \<longrightarrow>
            path r [''prediction'', ''risk_level''] = Str ''Medium'') \<and>
         (read_prop (selectPrediction result) ''risk_score'' = Undefined \<and>
          read_prop (selectPrediction result) ''confidence'' = Undefined \<longrightarrow>
            path r [''prediction'', ''outbreak_probability''] =
              Num (num_div (dec (7 / 10)) (Fin 100))) \<and>
         (read_prop result ''recommendations'' = Undefined \<longrightarrow>
            path r [''recommendations''] = recommendations_default) \<and>
         (read_prop result ''real_weather_data'' = Undefined \<and>
          read_prop result ''weather_data'' = Undefined \<longrightarrow>
            path r [''environmental_factors'', ''temperature_impact''] = Num (dec (75 / 100)) \<and>
            path r [''environmental_factors'', ''humidity_impact''] = Num (dec (8 / 10)) \<and>
            path r [''environmental_factors'', ''rainfall_impact''] = Num (dec (3 / 10)))"
proof -
  have run: "snd (predictOutbreak rt baseUrl backend now data) = Inr r"
    using predictOutbreak_success [OF assms] by simp
  have pop: "fully_populated r"
    using assms(9) by (rule fully_populated_transformed)
  have nw: "read_prop result ''real_weather_data'' = Undefined \<and>
      read_prop result ''weather_data'' = Undefined \<longrightarrow>
      \<not> truthy (selectWeatherData result)"
    by (simp add: selectWeatherData_def js_or_def)
  from transformPrediction_numbers [OF assms(9)] nw
  have nums: "read_prop (selectPrediction result) ''risk_score'' = Undefined \<and>
        read_prop (selectPrediction result) ''confidence'' = Undefined \<longrightarrow>
        path r [''prediction'', ''outbreak_probability''] =
          Num (num_div (dec (7 / 10)) (Fin 100))"
    and env: "read_prop result ''real_weather_data'' = Undefined \<and>
        read_prop result ''weather_data'' = Undefined \<longrightarrow>
        path r [''environmental_factors'', ''temperature_impact''] = Num (dec (75 / 100)) \<and>
        path r [''environmental_factors'', ''humidity_impact''] = Num (dec (8 / 10)) \<and>
        path r [''environmental_factors'', ''rainfall_impact''] = Num (dec (3 / 10))"
    by (auto simp del: path.simps simp add: js_or_Undefined js_div_def rainfall_share_def)
  show ?thesis
    using run pop nums env
    by (simp del: path.simps
        add: transformPrediction_prediction_fields [OF assms(9)] js_or_Undefined)
qed

text \<open>
  C8. A prediction payload whose weather data has a humidity and a rainfall but no
  temperature: the call returns the transformed payload, whose temperature impact is NaN,
  the quotient of \<^verbatim>\<open>undefined\<close> by 40, not a default; for the same payload the
  temperature of the feature importance, which is the same quotient followed by
  \<^verbatim>\<open>|| 0.75\<close>, is the default 0.75.
\<close>

theorem missing_weather_temperature_gives_NaN:
  "\<exists>r. snd (predictOutbreak sample_runtime API_BASE_URL
               (backend_healthy payload_weather_without_temperature) sample_now
               request_32_80_10) = Inr r \<and>
        path r [''status''] = Str ''success'' \<and>
        path r [''environmental_factors'', ''temperature_impact''] = Num NaN \<and>
        path r [''real_ai_analysis'', ''feature_importance'', ''temperature''] =
          Num (dec (75 / 100))"
proof -
  let ?b = "backend_healthy payload_weather_without_temperature"
  let ?h = "\<lparr>status_code = 200, statusText = ''OK'',
             json = Inr (Obj [(''status'', Str ''healthy'')])\<rparr>"
  let ?p = "\<lparr>status_code = 200, statusText = ''OK'',
             json = Inr payload_weather_without_temperature\<rparr>"
  have h: "?b (health_request API_BASE_URL) = Response ?h"
    by (simp add: backend_healthy_def health_request_def)
  have p: "?b (live_weather_request API_BASE_URL request_32_80_10) = Response ?p"
    by (simp add: backend_healthy_def live_weather_request_def)
  have okh: "ok ?h" and okp: "ok ?p" by (simp_all add: ok_def)
  have body: "json ?p = Inr payload_weather_without_temperature" by simp
  have nn: "payload_weather_without_temperature \<noteq> Null"
    "payload_weather_without_temperature \<noteq> Undefined"
    by (simp_all add: payload_weather_without_temperature_def)
  have noerr: "\<not> truthy (read_prop payload_weather_without_temperature ''error'')"
    by (simp add: payload_weather_without_temperature_def)
  have wd: "selectWeatherData payload_weather_without_temperature =
      Obj [(''humidity'', Num (Fin 80)), (''rainfall'', Num (Fin 10))]"
    by (simp add: selectWeatherData_def payload_weather_without_temperature_def js_or_def)
  have sp: "selectPrediction payload_weather_without_temperature =
      payload_weather_without_temperature"
    by (simp add: selectPrediction_def payload_weather_without_temperature_def js_or_def)
  have "\<exists>r. transformPrediction sample_runtime sample_now
      payload_weather_without_temperature = Inr r \<and>
      path r [''status''] = Str ''success'' \<and>
      path r [''environmental_factors'', ''temperature_impact''] = Num NaN \<and>
      path r [''real_ai_analysis'', ''feature_importance'', ''temperature''] =
        Num (dec (75 / 100))"
    unfolding transformPrediction_def Let_def wd sp
    by (simp add: and_then_def js_div_def rainfall_share_def read_opt_def js_or_def
        payload_weather_without_temperature_def)
  then obtain r where tr: "transformPrediction sample_runtime sample_now
      payload_weather_without_temperature = Inr r"
    and f: "path r [''status''] = Str ''success''"
      "path r [''environmental_factors'', ''temperature_impact''] = Num NaN"
      "path r [''real_ai_analysis'', ''feature_importance'', ''temperature''] =
        Num (dec (75 / 100))"
    by blast
  have "snd (predictOutbreak sample_runtime API_BASE_URL ?b sample_now request_32_80_10) =
      Inr r"
    using predictOutbreak_success [OF h okh p okp body nn noerr tr] by simp
  with f show ?thesis by blast
qed

lemma submitReport_success:
  assumes "backend (report_request rt baseUrl loc descr img la lo contact) = Response resp"
    and "ok resp" and "json resp = Inr result"
    and "result \<noteq> Null" and "result \<noteq> Undefined"
    and "js_or (read_prop result ''ai_classification'') (Str ''breeding_site'') = Str s"
  shows "submitReport rt baseUrl backend now_iso now_ms loc descr img la lo contact =
           ([report_request rt baseUrl loc descr img la lo contact],
            Inr (reportResult rt now_iso now_ms result (mapBackendCategoryToFrontend rt s)))"
  using assms
  by (simp add: submitReport_def submitReport_try_def Let_def get_def
      mapBackendCategoryToFrontend_call_def)

text \<open>
  C10 (as amended). Whenever the normalizer of \<^verbatim>\<open>predictOutbreak\<close> returns, a zero in
  \<^verbatim>\<open>confidence\<close> or \<^verbatim>\<open>predicted_cases\<close> of the prediction payload is replaced by
  0.85 or 85. A zero in \<^verbatim>\<open>points_earned\<close> or \<^verbatim>\<open>xp_earned\<close> of the report payload
  falls through to the legacy field (\<^verbatim>\<open>points_awarded\<close>, \<^verbatim>\<open>xp_gained\<close>) and, when
  that is not truthy either, to 50 or 25. None of the four fields of the result is ever
  zero.
\<close>

theorem zero_fields_fall_through:
  assumes "transformPrediction rt now result = Inr r"
  shows
  "(read_prop (selectPrediction result) ''confidence'' = Num (Fin 0) \<longrightarrow>
      path r [''prediction'', ''confidence''] = Num (dec (85 / 100))) \<and>
   (read_prop (selectPrediction result) ''predicted_cases'' = Num (Fin 0) \<longrightarrow>
      path r [''prediction'', ''predicted_cases''] = Num (Fin 85)) \<and>
   (read_prop report ''points_earned'' = Num (Fin 0) \<longrightarrow>
      path (reportResult rt now_iso now_ms report cat) [''gamification'', ''points_awarded''] =
        js_or (read_prop report ''points_awarded'') (Num (Fin 50))) \<and>
   (read_prop report ''xp_earned'' = Num (Fin 0) \<longrightarrow>
      path (reportResult rt now_iso now_ms report cat) [''gamification'', ''xp_gained''] =
        js_or (read_prop report ''xp_gained'') (Num (Fin 25))) \<and>
   path r [''prediction'', ''confidence''] \<noteq> Num (Fin 0) \<and>
   path r [''prediction'', ''predicted_cases''] \<noteq> Num (Fin 0) \<and>
   path (reportResult rt now_iso now_ms report cat) [''gamification'', ''points_awarded''] \<noteq>
     Num (Fin 0) \<and>
   path (reportResult rt now_iso now_ms report cat) [''gamification'', ''xp_gained''] \<noteq>
     Num (Fin 0)"
proof -
  have t: "truthy (Num (dec (85 / 100)))" "truthy (Num (Fin 85))" "truthy (Num (Fin 50))"
    "truthy (Num (Fin 25))"
    by (simp_all add: dec_0_85)
  show ?thesis
    unfolding transformPrediction_prediction_fields [OF assms] reportResult_rewards
    using t by (simp del: path.simps add: js_or_zero js_or_not_zero)
qed

theorem zero_fields_fall_through_witness:
  "(\<exists>r. snd (predictOutbreak sample_runtime API_BASE_URL (backend_healthy payload_zero_fields)
               sample_now request_32_80_10) = Inr r \<and>
         transformPrediction sample_runtime sample_now payload_zero_fields = Inr r \<and>
         path r [''prediction'', ''confidence''] = Num (dec (85 / 100)) \<and>
         path r [''prediction'', ''predicted_cases''] = Num (Fin 85)) \<and>
   read_prop (selectPrediction payload_zero_fields) ''confidence'' = Num (Fin 0) \<and>
   read_prop (selectPrediction payload_zero_fields) ''predicted_cases'' = Num (Fin 0) \<and>
   snd (submitReport sample_runtime API_BASE_URL
          (backend_replying (ok_response report_zero_rewards)) sample_now (Fin 0)
          ''Shah Alam'' ''Stagnant water'' None None None None) =
     Inr (reportResult sample_runtime sample_now (Fin 0) report_zero_rewards
            (mapBackendCategoryToFrontend sample_runtime ''clean_area'')) \<and>
   read_prop report_zero_rewards ''points_earned'' = Num (Fin 0) \<and>
   read_prop report_zero_rewards ''xp_earned'' = Num (Fin 0) \<and>
   path (reportResult sample_runtime sample_now (Fin 0) report_zero_rewards
           (mapBackendCategoryToFrontend sample_runtime ''clean_area''))
     [''gamification'', ''points_awarded''] = Num (Fin 50) \<and>
   path (reportResult sample_runtime sample_now (Fin 0) report_zero_rewards
           (mapBackendCategoryToFrontend sample_runtime ''clean_area''))
     [''gamification'', ''xp_gained''] = Num (Fin 25)"
proof -
  let ?b = "backend_healthy payload_zero_fields"
  let ?h = "\<lparr>status_code = 200, statusText = ''OK'',
             json = Inr (Obj [(''status'', Str ''healthy'')])\<rparr>"
  let ?p = "\<lparr>status_code = 200, statusText = ''OK'', json = Inr payload_zero_fields\<rparr>"
  have h: "?b (health_request API_BASE_URL) = Response ?h"
    by (simp add: backend_healthy_def health_request_def)
  have p: "?b (live_weather_request API_BASE_URL request_32_80_10) = Response ?p"
    by (simp add: backend_healthy_def live_weather_request_def)
  have okh: "ok ?h" and okp: "ok ?p" by (simp_all add: ok_def)
  have body: "json ?p = Inr payload_zero_fields" by simp
  have nn: "payload_zero_fields \<noteq> Null" "payload_zero_fields \<noteq> Undefined"
    by (simp_all add: payload_zero_fields_def)
  have noerr: "\<not> truthy (read_prop payload_zero_fields ''error'')"
    by (simp add: payload_zero_fields_def)
  have sel: "selectPrediction payload_zero_fields = payload_zero_fields"
    by (simp add: selectPrediction_def payload_zero_fields_def js_or_def)
  have wd: "selectWeatherData payload_zero_fields = Undefined"
    by (simp add: selectWeatherData_def payload_zero_fields_def js_or_def)
  have "\<exists>r. transformPrediction sample_runtime sample_now payload_zero_fields = Inr r"
    unfolding transformPrediction_def Let_def wd sel
    by (simp add: and_then_def js_div_def rainfall_share_def read_opt_def js_or_def
        payload_zero_fields_def)
  then obtain r where tr: "transformPrediction sample_runtime sample_now payload_zero_fields =
      Inr r"
    by blast
  have run1: "snd (predictOutbreak sample_runtime API_BASE_URL ?b sample_now request_32_80_10) =
      Inr r"
    using predictOutbreak_success [OF h okh p okp body nn noerr tr] by simp
  have zeros: "read_prop (selectPrediction payload_zero_fields) ''confidence'' = Num (Fin 0)"
    "read_prop (selectPrediction payload_zero_fields) ''predicted_cases'' = Num (Fin 0)"
    unfolding sel by (simp_all add: payload_zero_fields_def)
  have rq: "backend_replying (ok_response report_zero_rewards)
      (report_request sample_runtime API_BASE_URL ''Shah Alam'' ''Stagnant water''
         None None None None) = Response (ok_response report_zero_rewards)"
    by (simp add: backend_replying_def)
  have okr: "ok (ok_response report_zero_rewards)" by (simp add: ok_response_def ok_def)
  have bodyr: "json (ok_response report_zero_rewards) = Inr report_zero_rewards"
    by (simp add: ok_response_def)
  have nnr: "report_zero_rewards \<noteq> Null" "report_zero_rewards \<noteq> Undefined"
    by (simp_all add: report_zero_rewards_def)
  have cls: "js_or (read_prop report_zero_rewards ''ai_classification'') (Str ''breeding_site'') =
      Str ''clean_area''"
    by (simp add: report_zero_rewards_def js_or_def)
  have run2: "snd (submitReport sample_runtime API_BASE_URL
      (backend_replying (ok_response report_zero_rewards)) sample_now (Fin 0)
      ''Shah Alam'' ''Stagnant water'' None None None None) =
      Inr (reportResult sample_runtime sample_now (Fin 0) report_zero_rewards
            (mapBackendCategoryToFrontend sample_runtime ''clean_area''))"
    using submitReport_success
      [where backend = "backend_replying (ok_response report_zero_rewards)" and rt = sample_runtime
        and baseUrl = API_BASE_URL and loc = "''Shah Alam''" and descr = "''Stagnant water''"
        and img = None and la = None and lo = None and contact = None,
        OF rq okr bodyr nnr cls]
    by simp
  have zr: "read_prop report_zero_rewards ''points_earned'' = Num (Fin 0)"
    "read_prop report_zero_rewards ''xp_earned'' = Num (Fin 0)"
    "read_prop report_zero_rewards ''points_awarded'' = Undefined"
    "read_prop report_zero_rewards ''xp_gained'' = Undefined"
    by (simp_all add: report_zero_rewards_def)
  from zero_fields_fall_through
    [OF tr, of report_zero_rewards sample_now "Fin 0"
      "mapBackendCategoryToFrontend sample_runtime ''clean_area''"]
  have facts: "path r [''prediction'', ''confidence''] = Num (dec (85 / 100))"
    "path r [''prediction'', ''predicted_cases''] = Num (Fin 85)"
    "path (reportResult sample_runtime sample_now (Fin 0) report_zero_rewards
           (mapBackendCategoryToFrontend sample_runtime ''clean_area''))
       [''gamification'', ''points_awarded''] = Num (Fin 50)"
    "path (reportResult sample_runtime sample_now (Fin 0) report_zero_rewards
           (mapBackendCategoryToFrontend sample_runtime ''clean_area''))
       [''gamification'', ''xp_gained''] = Num (Fin 25)"
    using zeros zr by (simp_all del: path.simps add: js_or_Undefined)
  have "\<exists>r. snd (predictOutbreak sample_runtime API_BASE_URL ?b sample_now
      request_32_80_10) = Inr r \<and>
      transformPrediction sample_runtime sample_now payload_zero_fields = Inr r \<and>
      path r [''prediction'', ''confidence''] = Num (dec (85 / 100)) \<and>
      path r [''prediction'', ''predicted_cases''] = Num (Fin 85)"
    using run1 tr facts(1,2) by blast
  then show ?thesis using run2 zeros zr(1,2) facts(3,4) by (simp del: path.simps)
qed

text \<open>
  C10, as stated, fails when the legacy field is there: a report payload with
  \<^verbatim>\<open>points_earned: 0\<close> and \<^verbatim>\<open>points_awarded: 30\<close> gives 30 points, not 50.
\<close>

theorem zero_points_earned_gives_legacy_points:
  "snd (submitReport sample_runtime API_BASE_URL
          (backend_replying (ok_response report_zero_and_legacy)) sample_now (Fin 0)
          ''Shah Alam'' ''Stagnant water'' None None None None) =
     Inr (reportResult sample_runtime sample_now (Fin 0) report_zero_and_legacy
            (mapBackendCategoryToFrontend sample_runtime ''clean_area'')) \<and>
   read_prop report_zero_and_legacy ''points_earned'' = Num (Fin 0) \<and>
   path (reportResult sample_runtime sample_now (Fin 0) report_zero_and_legacy
           (mapBackendCategoryToFrontend sample_runtime ''clean_area''))
     [''gamification'', ''points_awarded''] = Num (Fin 30) \<and>
   Num (Fin 30) \<noteq> Num (Fin 50)"
proof -
  have rq: "backend_replying (ok_response report_zero_and_legacy)
      (report_request sample_runtime API_BASE_URL ''Shah Alam'' ''Stagnant water''
         None None None None) = Response (ok_response report_zero_and_legacy)"
    by (simp add: backend_replying_def)
  have okr: "ok (ok_response report_zero_and_legacy)" by (simp add: ok_response_def ok_def)
  have bodyr: "json (ok_response report_zero_and_legacy) = Inr report_zero_and_legacy"
    by (simp add: ok_response_def)
  have nnr: "report_zero_and_legacy \<noteq> Null" "report_zero_and_legacy \<noteq> Undefined"
    by (simp_all add: report_zero_and_legacy_def)
  have cls: "js_or (read_prop report_zero_and_legacy ''ai_classification'')
      (Str ''breeding_site'') = Str ''clean_area''"
    by (simp add: report_zero_and_legacy_def js_or_def)
  have run: "snd (submitReport sample_runtime API_BASE_URL
      (backend_replying (ok_response report_zero_and_legacy)) sample_now (Fin 0)
      ''Shah Alam'' ''Stagnant water'' None None None None) =
      Inr (reportResult sample_runtime sample_now (Fin 0) report_zero_and_legacy
            (mapBackendCategoryToFrontend sample_runtime ''clean_area''))"
    using submitReport_success
      [where backend = "backend_replying (ok_response report_zero_and_legacy)" and rt = sample_runtime
        and baseUrl = API_BASE_URL and loc = "''Shah Alam''" and descr = "''Stagnant water''"
        and img = None and la = None and lo = None and contact = None,
        OF rq okr bodyr nnr cls]
    by simp
  have v: "path (reportResult sample_runtime sample_now (Fin 0) report_zero_and_legacy
           (mapBackendCategoryToFrontend sample_runtime ''clean_area''))
     [''gamification'', ''points_awarded''] = Num (Fin 30)"
    unfolding reportResult_rewards by (simp add: report_zero_and_legacy_def js_or_def)
  have z: "read_prop report_zero_and_legacy ''points_earned'' = Num (Fin 0)"
    by (simp add: report_zero_and_legacy_def)
  show ?thesis using run v z by simp
qed

section \<open>Properties of report submission\<close>

lemma str_includes_append: "str_includes (p @ d) d"
  unfolding str_includes_iff by (rule exI [of _ p], rule exI [of _ "[]"]) simp

lemma submitReport_rejects_when_not_ok:
  assumes "backend (report_request rt baseUrl loc descr img la lo contact) = Response resp"
    and "\<not> ok resp"
  shows "\<exists>m. snd (submitReport rt baseUrl backend now_iso now_ms loc descr img la lo contact) =
           Inl (JsError m)"
  using assms
  by (auto simp add: submitReport_def submitReport_try_def Let_def get_def
      split: sum.splits)

lemma submitReport_message_has_detail:
  assumes "backend (report_request rt baseUrl loc descr img la lo contact) = Response resp"
    and "\<not> ok resp" and "json resp = Inr b" and "b \<noteq> Null" and "b \<noteq> Undefined"
    and "read_prop b ''detail'' = Str d" and "d \<noteq> []"
  shows "snd (submitReport rt baseUrl backend now_iso now_ms loc descr img la lo contact) =
           Inl (JsError (''Report submission failed: '' @ d)) \<and>
         str_includes (''Report submission failed: '' @ d) d"
  using assms str_includes_append [of "''Report submission failed: ''" d]
  by (simp del: str_includes.simps
      add: submitReport_def submitReport_try_def Let_def get_def js_or_def)

lemma submitReport_message_has_status_text:
  assumes "backend (report_request rt baseUrl loc descr img la lo contact) = Response resp"
    and "\<not> ok resp"
    and "(\<exists>e. json resp = Inl e) \<or>
         (\<exists>b. json resp = Inr b \<and> b \<noteq> Null \<and> b \<noteq> Undefined \<and>
              read_prop b ''detail'' = Undefined)"
  shows "\<exists>m. snd (submitReport rt baseUrl backend now_iso now_ms loc descr img la lo contact) =
           Inl (JsError m) \<and> str_includes m (statusText resp)"
proof -
  have a: "str_includes (''Report submission failed: '' @ statusText resp) (statusText resp)"
    by (rule str_includes_append)
  have b: "str_includes
      (''Report submission failed: '' @ ''Report submission failed: '' @ statusText resp)
      (statusText resp)"
    using str_includes_append
      [of "''Report submission failed: '' @ ''Report submission failed: ''" "statusText resp"]
    by simp
  from assms(3) show ?thesis
  proof
    assume "\<exists>e. json resp = Inl e"
    then show ?thesis using assms(1,2) a b
      by (auto simp del: str_includes.simps
          simp add: submitReport_def submitReport_try_def Let_def get_def js_or_def)
  next
    assume "\<exists>b. json resp = Inr b \<and> b \<noteq> Null \<and> b \<noteq> Undefined \<and>
        read_prop b ''detail'' = Undefined"
    then show ?thesis using assms(1,2) b
      by (auto simp del: str_includes.simps
          simp add: submitReport_def submitReport_try_def Let_def get_def js_or_def)
  qed
qed

text \<open>
  C7. Two responses that are not OK and whose error message has neither the detail nor
  the status text. A body that is the JSON literal \<^verbatim>\<open>null\<close>: reading its
  \<^verbatim>\<open>detail\<close> raises a TypeError, whose message is the one rethrown. A body whose
  \<^verbatim>\<open>detail\<close> is a list of objects, as in a validation error: its conversion to a
  string is \<^verbatim>\<open>[object Object]\<close>. In both cases the call still rejects.
\<close>

theorem submitReport_message_without_detail_or_status_text:
  "snd (submitReport sample_runtime API_BASE_URL (backend_replying response_null_body)
          sample_now (Fin 0) ''Shah Alam'' ''Stagnant water'' None None None None) =
     Inl (JsError (''Report submission failed: Cannot read properties of null (reading '' @
                   [CHR 0x27] @ ''detail'' @ [CHR 0x27] @ '')'')) \<and>
   \<not> str_includes
       (''Report submission failed: Cannot read properties of null (reading '' @
        [CHR 0x27] @ ''detail'' @ [CHR 0x27] @ '')'') ''Bad Request'' \<and>
   snd (submitReport sample_runtime API_BASE_URL (backend_replying response_validation_error)
          sample_now (Fin 0) ''Shah Alam'' ''Stagnant water'' None None None None) =
     Inl (JsError ''Report submission failed: [object Object]'') \<and>
   \<not> str_includes ''Report submission failed: [object Object]'' ''field required'' \<and>
   \<not> str_includes ''Report submission failed: [object Object]'' ''Unprocessable Entity''"
  by (simp add: submitReport_def submitReport_try_def Let_def get_def js_or_def
      backend_replying_def response_null_body_def response_validation_error_def ok_def
      sample_runtime_def has_own_def)

end
